theory Spec2Isabelle
  imports Main "HOL-Library.Word"
begin

section \<open>Shared data model\<close>

text \<open>
  Go strings and byte slices are sequences of bytes; both are modelled as \<open>string\<close>
  (a list of 8-bit characters), so \<open>length\<close> is Go's \<open>len\<close> and \<open>take\<close> is a
  prefix slice. The numeric value of a byte is \<open>of_char\<close>.

  A \<open>time.Time\<close> is modelled by its instant: the number of nanoseconds since the zero
  Time (January 1, year 1, 00:00:00 UTC), so \<open>t.IsZero()\<close> is equality with 0 and
  \<open>t.After(u)\<close> is \<open>u < t\<close>. Location and monotonic clock reading are not part of the model.
  A \<open>time.Duration\<close> is a number of nanoseconds.
\<close>

type_synonym Time = int
type_synonym Duration = int

definition Minute :: Duration where
  "Minute = 60 * 1000000000"

definition Time_After :: "Time \<Rightarrow> Time \<Rightarrow> bool" where
  "Time_After t u = (u < t)"

definition Time_Add :: "Time \<Rightarrow> Duration \<Rightarrow> Time" where
  "Time_Add t d = t + d"

definition Time_IsZero :: "Time \<Rightarrow> bool" where
  "Time_IsZero t = (t = 0)"

definition maxDuration :: Duration where
  "maxDuration = 2 ^ 63 - 1"

definition minDuration :: Duration where
  "minDuration = - (2 ^ 63)"

text \<open>\<open>t.Sub(u)\<close> saturates at the largest and smallest Duration (a 64-bit integer).\<close>

definition Time_Sub :: "Time \<Rightarrow> Time \<Rightarrow> Duration" where
  "Time_Sub t u = (if t - u > maxDuration then maxDuration
              else if t - u < minDuration then minDuration else t - u)"

text \<open>\<open>time.Until(t)\<close> is \<open>t.Sub(time.Now())\<close>; the clock reading is a parameter.\<close>

definition Time_Until :: "Time \<Rightarrow> Time \<Rightarrow> Duration" where
  "Time_Until now t = Time_Sub t now"

text \<open>models.go: the Session struct.\<close>

record Session =
  AccessToken :: string
  RefreshToken :: string
  ExpiresAt :: Time
  TokenType :: string
  MarbleCookie :: string
  DeviceHash :: string

definition zeroSession :: Session where
  "zeroSession = \<lparr>AccessToken = [], RefreshToken = [], ExpiresAt = 0, TokenType = [],
     MarbleCookie = [], DeviceHash = []\<rparr>"

text \<open>
  Every error the modelled functions return, one constructor per \<open>fmt.Errorf\<close> site;
  \<open>Wrapped\<close> is the \<open>%w\<close> wrapping of an underlying error under a prefix.
\<close>

datatype error =
    SessionDirFailed
  | MarshalSessionFailed
  | WriteSessionFailed
  | SessionFileNotExist
  | ReadSessionFailed
  | UnmarshalSessionFailed
  | NoRefreshToken
  | NoSession
  | CreateRequestFailed
  | HTTPRequestFailed
  | ReadBodyFailed
  | APIRequestFailed int string
  | DecodeResponseFailed
  | RefreshFailed string
  | ParseExpiresAtFailed
  | FetchFailed string
  | ReadInputFailed
  | PhoneNumberRequired
  | OTPCodeRequired
  | Wrapped string error

section \<open>Session store (session manager)\<close>

text \<open>
  The file system as the session manager sees it: the content of each existing file, and
  the environment's failures (a directory that cannot be created, a file that cannot be
  written or read), each keyed by the file's path. \<open>mkdir_fails p\<close> says that
  \<open>os.MkdirAll(filepath.Dir(p), 0755)\<close> fails.
\<close>

record FileSystem =
  files :: "string \<Rightarrow> string option"
  mkdir_fails :: "string \<Rightarrow> bool"
  write_fails :: "string \<Rightarrow> bool"
  read_fails :: "string \<Rightarrow> bool"

text \<open>
  encoding/json is a library, not code of the repository. Its value level is modelled
  (which struct field goes under which key is decided by the struct tags of models.go);
  its text level (rendering a JSON value with indentation, parsing it back), the JSON
  form of a \<open>time.Time\<close> and the case-insensitive comparison of a field's name with an
  object key are parameters.
\<close>

datatype json = JNull | JBool bool | JNumber int | JString string | JObject "(string \<times> json) list"

record json_lib =
  json_render :: "json \<Rightarrow> string"
  json_parse :: "string \<Rightarrow> json option"
  time_MarshalJSON :: "Time \<Rightarrow> string option"
  time_UnmarshalJSON :: "string \<Rightarrow> Time option"
  json_equalFold :: "string \<Rightarrow> string \<Rightarrow> bool"

text \<open>
  \<open>json.MarshalIndent(session, ...)\<close> on a \<open>*Session\<close>: a nil pointer is \<open>null\<close>;
  otherwise an object with one member per field, under the key of the field's tag, in
  declaration order. It fails when the expiry has no JSON form.
\<close>

definition marshal_Session :: "json_lib \<Rightarrow> Session option \<Rightarrow> json option" where
  "marshal_Session lib session =
     (case session of
        None \<Rightarrow> Some JNull
      | Some s \<Rightarrow>
          (case time_MarshalJSON lib (ExpiresAt s) of
             None \<Rightarrow> None
           | Some t \<Rightarrow> Some (JObject
               [(''access_token'', JString (AccessToken s)),
                (''refresh_token'', JString (RefreshToken s)),
                (''expires_at'', JString t),
                (''token_type'', JString (TokenType s)),
                (''marble_cookie'', JString (MarbleCookie s)),
                (''device_hash'', JString (DeviceHash s))])))"

text \<open>
  \<open>json.Unmarshal(data, &session)\<close> at the value level: each member of the object is
  stored into the field whose tag is its key, or else into the first field, in declaration
  order, whose tag equals the key up to the case of its letters; a \<open>null\<close> member leaves
  the field as it is, a member of the wrong JSON type is an error, a key that matches no
  field is skipped, and of two members for one field the later wins.
\<close>

definition session_tags :: "string list" where
  "session_tags = [''access_token'', ''refresh_token'', ''expires_at'', ''token_type'',
                   ''marble_cookie'', ''device_hash'']"

definition field_of_key :: "json_lib \<Rightarrow> string \<Rightarrow> string" where
  "field_of_key lib key =
     (if key \<in> set session_tags then key
      else (case find (\<lambda>tag. json_equalFold lib tag key) session_tags of
              Some tag \<Rightarrow> tag
            | None \<Rightarrow> key))"

definition set_string :: "json \<Rightarrow> (string \<Rightarrow> Session) \<Rightarrow> Session \<Rightarrow> Session option" where
  "set_string v upd s = (case v of JString x \<Rightarrow> Some (upd x) | JNull \<Rightarrow> Some s | _ \<Rightarrow> None)"

definition set_field :: "json_lib \<Rightarrow> string \<Rightarrow> json \<Rightarrow> Session \<Rightarrow> Session option" where
  "set_field lib key v s =
     (let k = field_of_key lib key in
      if k = ''access_token'' then set_string v (\<lambda>x. s\<lparr>AccessToken := x\<rparr>) s
      else if k = ''refresh_token'' then set_string v (\<lambda>x. s\<lparr>RefreshToken := x\<rparr>) s
      else if k = ''expires_at'' then
        (case v of
           JNull \<Rightarrow> Some s
         | JString x \<Rightarrow>
             (case time_UnmarshalJSON lib x of
                None \<Rightarrow> None
              | Some t \<Rightarrow> Some (s\<lparr>ExpiresAt := t\<rparr>))
         | _ \<Rightarrow> None)
      else if k = ''token_type'' then set_string v (\<lambda>x. s\<lparr>TokenType := x\<rparr>) s
      else if k = ''marble_cookie'' then set_string v (\<lambda>x. s\<lparr>MarbleCookie := x\<rparr>) s
      else if k = ''device_hash'' then set_string v (\<lambda>x. s\<lparr>DeviceHash := x\<rparr>) s
      else Some s)"

fun unmarshal_members :: "json_lib \<Rightarrow> (string \<times> json) list \<Rightarrow> Session \<Rightarrow> Session option" where
  "unmarshal_members lib [] s = Some s"
| "unmarshal_members lib ((k, v) # kvs) s =
     (case set_field lib k v s of
        None \<Rightarrow> None
      | Some s' \<Rightarrow> unmarshal_members lib kvs s')"

definition unmarshal_Session :: "json_lib \<Rightarrow> json \<Rightarrow> Session option" where
  "unmarshal_Session lib j =
     (case j of
        JNull \<Rightarrow> Some zeroSession
      | JObject kvs \<Rightarrow> unmarshal_members lib kvs zeroSession
      | _ \<Rightarrow> None)"

text \<open>
  SaveSession: create the directory, marshal, write the file. The new file system is
  returned on success. On an error the model has no file system to return: what a failed
  write leaves behind is not described.
\<close>

definition SaveSession ::
  "json_lib \<Rightarrow> string \<Rightarrow> FileSystem \<Rightarrow> Session option \<Rightarrow> error + FileSystem" where
  "SaveSession lib sessionFile fs session =
     (if mkdir_fails fs sessionFile then Inl (Wrapped ''failed to create session directory'' SessionDirFailed)
      else case marshal_Session lib session of
        None \<Rightarrow> Inl (Wrapped ''failed to marshal session'' MarshalSessionFailed)
      | Some j \<Rightarrow>
          if write_fails fs sessionFile then Inl (Wrapped ''failed to write session file'' WriteSessionFailed)
          else Inr (fs\<lparr>files := (files fs)(sessionFile \<mapsto> json_render lib j)\<rparr>))"

text \<open>LoadSession: stat, read, unmarshal.\<close>

definition LoadSession :: "json_lib \<Rightarrow> string \<Rightarrow> FileSystem \<Rightarrow> error + Session" where
  "LoadSession lib sessionFile fs =
     (case files fs sessionFile of
        None \<Rightarrow> Inl SessionFileNotExist
      | Some data \<Rightarrow>
          if read_fails fs sessionFile then Inl (Wrapped ''failed to read session file'' ReadSessionFailed)
          else (case json_parse lib data of
                  None \<Rightarrow> Inl (Wrapped ''failed to unmarshal session'' UnmarshalSessionFailed)
                | Some j \<Rightarrow>
                    (case unmarshal_Session lib j of
                       None \<Rightarrow> Inl (Wrapped ''failed to unmarshal session'' UnmarshalSessionFailed)
                     | Some s \<Rightarrow> Inr s)))"

text \<open>IsSessionValid; \<open>now\<close> is the reading of \<open>time.Now()\<close>, a nil session is \<open>None\<close>.\<close>

definition IsSessionValid :: "Time \<Rightarrow> Session option \<Rightarrow> bool" where
  "IsSessionValid now session =
     (case session of
        None \<Rightarrow> False
      | Some s \<Rightarrow>
          if AccessToken s = [] then False
          else if Time_After (Time_Add now (5 * Minute)) (ExpiresAt s) then False
          else True)"

record SessionInfo =
  Exists :: bool
  Valid :: bool
  ExpiresAt_info :: Time
  TimeRemaining :: Duration
  HasRefreshToken :: bool

text \<open>
  GetSessionInfo returns the info and the error (\<open>None\<close> is Go's nil error).
  \<open>now1\<close> is the clock read by IsSessionValid, \<open>now2\<close> the one read by
  \<open>time.Until\<close>.
\<close>

definition GetSessionInfo ::
  "json_lib \<Rightarrow> string \<Rightarrow> FileSystem \<Rightarrow> Time \<Rightarrow> Time \<Rightarrow> SessionInfo \<times> error option" where
  "GetSessionInfo lib sessionFile fs now1 now2 =
     (case LoadSession lib sessionFile fs of
        Inl err \<Rightarrow>
          (\<lparr>Exists = False, Valid = False, ExpiresAt_info = 0, TimeRemaining = 0,
            HasRefreshToken = False\<rparr>, None)
      | Inr session \<Rightarrow>
          (let info = \<lparr>Exists = True, Valid = IsSessionValid now1 (Some session),
                 ExpiresAt_info = ExpiresAt session, TimeRemaining = 0,
                 HasRefreshToken = (RefreshToken session \<noteq> [])\<rparr>
           in (if Valid info then info\<lparr>TimeRemaining := Time_Until now2 (ExpiresAt session)\<rparr>
               else info, None)))"

section \<open>Text detection (helpers.go)\<close>

text \<open>
  Decoding one UTF-8 rune, as Go's \<open>utf8.DecodeRune\<close> and the \<open>range\<close> loop over
  a string do: the rune and its width in bytes; an invalid or truncated encoding gives
  \<open>RuneError\<close> with width 1, the empty input gives \<open>RuneError\<close> with width 0.
  The first byte fixes the width and the range accepted for the second byte.
\<close>

definition RuneError :: int where
  "RuneError = 65533"

definition DecodeRune :: "string \<Rightarrow> int \<times> nat" where
  "DecodeRune p =
     (case p of
        [] \<Rightarrow> (RuneError, 0)
      | c0 # p1 \<Rightarrow>
          (let p0 = (of_char c0 :: nat) in
           if p0 < 128 then (int p0, 1)
           else if p0 < 194 \<or> 244 < p0 then (RuneError, 1)
           else
             (let sz = (if p0 < 224 then 2 else if p0 < 240 then 3 else 4 :: nat);
                  lo = (if p0 = 224 then 160 else if p0 = 240 then 144 else 128 :: nat);
                  hi = (if p0 = 237 then 159 else if p0 = 244 then 143 else 191 :: nat)
              in if length p < sz then (RuneError, 1)
                 else
                   (let b1 = (of_char (p ! 1) :: nat) in
                    if b1 < lo \<or> hi < b1 then (RuneError, 1)
                    else if sz \<le> 2 then (int ((p0 mod 32) * 64 + b1 mod 64), 2)
                    else
                      (let b2 = (of_char (p ! 2) :: nat) in
                       if b2 < 128 \<or> 191 < b2 then (RuneError, 1)
                       else if sz \<le> 3
                         then (int ((p0 mod 16) * 4096 + (b1 mod 64) * 64 + b2 mod 64), 3)
                       else
                         (let b3 = (of_char (p ! 3) :: nat) in
                          if b3 < 128 \<or> 191 < b3 then (RuneError, 1)
                          else (int ((p0 mod 8) * 262144 + (b1 mod 64) * 4096
                                     + (b2 mod 64) * 64 + b3 mod 64), 4)))))))"

text \<open>\<open>utf8.Valid\<close>: every rune of the input decodes without error.\<close>

function utf8_Valid :: "string \<Rightarrow> bool" where
  "utf8_Valid p =
     (if p = [] then True
      else if fst (DecodeRune p) = RuneError \<and> snd (DecodeRune p) = 1 then False
      else utf8_Valid (drop (snd (DecodeRune p)) p))"
  by pat_completeness auto
termination
proof (relation "measure length")
  show "wf (measure length)" by simp
next
  fix p :: string
  assume "p \<noteq> []"
  then have "0 < snd (DecodeRune p)"
    by (cases p) (simp_all add: DecodeRune_def Let_def)
  with \<open>p \<noteq> []\<close> show "(drop (snd (DecodeRune p)) p, p) \<in> measure length"
    by simp
qed

text \<open>
  The loop of isTextContent, \<open>for i, r := range string(data)\<close>: \<open>i\<close> is the byte
  offset of the rune \<open>r\<close>, \<open>rest\<close> the bytes from offset \<open>i\<close> on. It stops at the
  first rune whose offset is above 1000 and counts the runes below 32 other than newline,
  carriage return and tab.
\<close>

function countControlChars :: "nat \<Rightarrow> string \<Rightarrow> nat \<Rightarrow> nat" where
  "countControlChars i rest controlChars =
     (if rest = [] then controlChars
      else if i > 1000 then controlChars
      else countControlChars (i + snd (DecodeRune rest)) (drop (snd (DecodeRune rest)) rest)
             (if fst (DecodeRune rest) < 32 \<and> fst (DecodeRune rest) \<noteq> 10
                 \<and> fst (DecodeRune rest) \<noteq> 13 \<and> fst (DecodeRune rest) \<noteq> 9
              then controlChars + 1 else controlChars))"
  by pat_completeness auto
termination
proof (relation "measure (\<lambda>(i, rest, controlChars). length rest)")
  show "wf (measure (\<lambda>(i, rest, controlChars). length rest))" by simp
next
  fix i :: nat and rest :: string and controlChars :: nat
  assume "rest \<noteq> []"
  then have "0 < snd (DecodeRune rest)"
    by (cases rest) (simp_all add: DecodeRune_def Let_def)
  with \<open>rest \<noteq> []\<close>
  show "((i + snd (DecodeRune rest), drop (snd (DecodeRune rest)) rest,
          if fst (DecodeRune rest) < 32 \<and> fst (DecodeRune rest) \<noteq> 10
             \<and> fst (DecodeRune rest) \<noteq> 13 \<and> fst (DecodeRune rest) \<noteq> 9
          then controlChars + 1 else controlChars),
         i, rest, controlChars) \<in> measure (\<lambda>(i, rest, controlChars). length rest)"
    by simp
qed

declare utf8_Valid.simps [simp del]

declare countControlChars.simps [simp del]

text \<open>
  isTextContent. The source compares \<open>float64(controlChars)/float64(len(data)) < 0.1\<close>;
  both operands are exact in float64 and the quotient of two integers below \<open>2^49\<close> is
  either exactly one tenth or further from it than the rounding error, so the comparison
  is the exact one, \<open>10 * controlChars < len(data)\<close>, written here on naturals.
\<close>

definition isTextContent :: "string \<Rightarrow> bool" where
  "isTextContent data =
     (if length data = 0 then True
      else if \<not> utf8_Valid data then False
      else 10 * countControlChars 0 data 0 < length data)"

section \<open>Transport (client.go)\<close>

text \<open>
  The Client struct. The HTTP client and the rate limiter's ticker carry no state that
  the modelled functions read; waiting on the ticker is a delay and is not modelled.
  The session is a pointer in the source: \<open>None\<close> is nil.
\<close>

record Client =
  baseURL :: string
  session :: "Session option"
  deviceHash :: string
  deviceType :: string
  deviceLocation :: string
  enableLogging :: bool

text \<open>
  An outgoing request as newRequest builds it: method, URL, the JSON value of the body
  (\<open>None\<close> for no body), the headers by name, and the cookies added.
\<close>

record Request =
  Method :: string
  URL :: string
  ReqBody :: "json option"
  Header :: "string \<Rightarrow> string option"
  ReqCookies :: "(string \<times> string) list"

text \<open>
  What the network answers to one request: \<open>httpClient.Do\<close> fails, or reading and
  decompressing the body fails, or there is a response with its status, the cookies of
  its \<open>Set-Cookie\<close> headers as \<open>resp.Cookies()\<close> lists them, and the decompressed body.
\<close>

record Response =
  StatusCode :: int
  Cookies :: "(string \<times> string) list"
  Body :: string

datatype http_result = DoFailed | BodyFailed | Responded Response

text \<open>
  models.go. A field of type \<open>interface{}\<close> holding the envelope's error is \<open>None\<close>
  for nil (JSON null or absent) and otherwise carries its \<open>%v\<close> rendering.
\<close>

record APIResponse =
  Error_api :: "string option"

record TokenData =
  TokenType_td :: string
  AccessToken_td :: string
  RefreshToken_td :: string
  ExpiresAt_td :: string

record RefreshRequest =
  RefreshToken_rq :: string

record RefreshResponse =
  Data_rr :: TokenData
  Error_rr :: "string option"

text \<open>
  The library functions the transport calls, as parameters: whether \<open>http.NewRequest\<close>
  rejects a method and URL, \<open>json.Unmarshal\<close> into each response type (\<open>None\<close> is a
  decode error), \<open>time.Parse(time.RFC3339, _)\<close>, \<open>t.Format(time.RFC3339)\<close> and
  \<open>url.Values.Encode\<close>.
\<close>

record http_lib =
  NewRequest_fails :: "string \<Rightarrow> string \<Rightarrow> bool"
  unmarshal_APIResponse :: "string \<Rightarrow> APIResponse option"
  unmarshal_RefreshResponse :: "string \<Rightarrow> RefreshResponse option"
  time_Parse_RFC3339 :: "string \<Rightarrow> Time option"
  time_Format_RFC3339 :: "Time \<Rightarrow> string"
  Values_Encode :: "(string \<times> string list) list \<Rightarrow> string"

definition marshal_RefreshRequest :: "RefreshRequest \<Rightarrow> json" where
  "marshal_RefreshRequest r = JObject [(''refresh_token'', JString (RefreshToken_rq r))]"

definition SetSession :: "Client \<Rightarrow> Session option \<Rightarrow> Client" where
  "SetSession c s = c\<lparr>session := s\<rparr>"

definition GetSession :: "Client \<Rightarrow> Session option" where
  "GetSession c = session c"

definition setStandardHeaders :: "Request \<Rightarrow> Request" where
  "setStandardHeaders req =
     req\<lparr>Header := (Header req)
            (''Content-Type'' \<mapsto> ''application/json'',
             ''Accept'' \<mapsto> ''application/json'',
             ''Accept-Encoding'' \<mapsto> ''gzip, deflate, br'',
             ''Origin'' \<mapsto> ''https://bend.example.com'')\<rparr>"

text \<open>setDeviceHeaders; \<open>requestID\<close> is the value generateRequestID draws.\<close>

definition setDeviceHeaders :: "Client \<Rightarrow> string \<Rightarrow> Request \<Rightarrow> Request" where
  "setDeviceHeaders c requestID req =
     req\<lparr>Header := (Header req)
            (''X-Device-Hash'' \<mapsto> deviceHash c,
             ''X-Device-Type'' \<mapsto> deviceType c,
             ''X-Device-Location'' \<mapsto> deviceLocation c,
             ''X-Request-ID'' \<mapsto> requestID)\<rparr>"

definition setAuthenticationHeaders :: "Client \<Rightarrow> Request \<Rightarrow> Request" where
  "setAuthenticationHeaders c req =
     (case session c of
        None \<Rightarrow> req
      | Some s \<Rightarrow>
          (let req1 =
                 (if AccessToken s \<noteq> [] then
                    (let authHeader = TokenType s @ '' '' @ AccessToken s;
                         authHeader = (if TokenType s = [] then ''Bearer '' @ AccessToken s
                                       else authHeader)
                     in req\<lparr>Header := (Header req)(''Authorization'' \<mapsto> authHeader)\<rparr>)
                  else req)
           in if MarbleCookie s \<noteq> []
              then req1\<lparr>ReqCookies := ReqCookies req1 @ [(''marble-cookie'', MarbleCookie s)]\<rparr>
              else req1))"

text \<open>
  newRequest. The bodies the modelled callers pass are structs of strings, which
  \<open>json.Marshal\<close> never rejects, so the body arrives here already as its JSON value;
  logging prints and changes nothing.
\<close>

definition newRequest ::
  "http_lib \<Rightarrow> Client \<Rightarrow> string \<Rightarrow> string \<Rightarrow> string \<Rightarrow> json option \<Rightarrow> error + Request" where
  "newRequest lib c requestID method endpoint body =
     (let url = baseURL c @ endpoint in
      if NewRequest_fails lib method url
      then Inl (Wrapped ''failed to create HTTP request'' CreateRequestFailed)
      else Inr (setAuthenticationHeaders c (setDeviceHeaders c requestID (setStandardHeaders
             \<lparr>Method = method, URL = url, ReqBody = body, Header = (\<lambda>h. None),
              ReqCookies = []\<rparr>))))"

text \<open>saveResponseCookies: the first cookie named marble-cookie is stored in the session.\<close>

definition saveResponseCookies :: "Client \<Rightarrow> Response \<Rightarrow> Client" where
  "saveResponseCookies c resp =
     (case session c of
        None \<Rightarrow> c
      | Some s \<Rightarrow>
          if length (Cookies resp) = 0 then c
          else (case find (\<lambda>cookie. fst cookie = ''marble-cookie'') (Cookies resp) of
                  None \<Rightarrow> c
                | Some cookie \<Rightarrow> c\<lparr>session := Some (s\<lparr>MarbleCookie := snd cookie\<rparr>)\<rparr>))"

text \<open>
  handleErrorResponse. The error it returns is \<open>APIRequestFailed status message\<close>, for
  "API request failed with status %d: %s".
\<close>

definition handleErrorResponse :: "http_lib \<Rightarrow> Response \<Rightarrow> string \<Rightarrow> error" where
  "handleErrorResponse lib resp body =
     (let errorMsg = body;
          errorMsg = (if \<not> isTextContent body then ''[binary/compressed response]''
                      else if length errorMsg > 200 then take 200 errorMsg @ ''...''
                      else errorMsg)
      in case unmarshal_APIResponse lib body of
           None \<Rightarrow> APIRequestFailed (StatusCode resp) errorMsg
         | Some errorResp \<Rightarrow>
             (case Error_api errorResp of
                None \<Rightarrow> APIRequestFailed (StatusCode resp) errorMsg
              | Some e \<Rightarrow> APIRequestFailed (StatusCode resp) e))"

text \<open>
  doRequest, for a target of any response type, given the network's answer and the
  decoder of that type (every modelled caller passes a target, so the body is always
  decoded). The client is returned because a 2xx response may store a cookie in the
  session before the body is decoded.
\<close>

definition doRequest ::
  "http_lib \<Rightarrow> Client \<Rightarrow> http_result \<Rightarrow> (string \<Rightarrow> 'v option) \<Rightarrow> (error + 'v) \<times> Client" where
  "doRequest lib c res unmarshal =
     (case res of
        DoFailed \<Rightarrow> (Inl (Wrapped ''HTTP request failed'' HTTPRequestFailed), c)
      | BodyFailed \<Rightarrow> (Inl ReadBodyFailed, c)
      | Responded resp \<Rightarrow>
          if StatusCode resp < 200 \<or> StatusCode resp \<ge> 300
          then (Inl (handleErrorResponse lib resp (Body resp)), c)
          else
            (let c' = saveResponseCookies c resp in
             case unmarshal (Body resp) of
               None \<Rightarrow> (Inl (Wrapped ''failed to decode response'' DecodeResponseFailed), c')
             | Some v \<Rightarrow> (Inr v, c')))"

section \<open>Refresh-token flow (client.go, utils.go)\<close>

text \<open>
  RefreshSession returns its error (\<open>None\<close> is nil), the client afterwards and the
  requests it sent. \<open>requestID\<close> and \<open>res\<close> are the request identifier drawn for the
  request and the network's answer to it.
\<close>

definition RefreshSession ::
  "http_lib \<Rightarrow> string \<Rightarrow> http_result \<Rightarrow> Client \<Rightarrow> error option \<times> Client \<times> Request list" where
  "RefreshSession lib requestID res c =
     (case session c of
        None \<Rightarrow> (Some NoRefreshToken, c, [])
      | Some s \<Rightarrow>
          if RefreshToken s = [] then (Some NoRefreshToken, c, [])
          else
            (let refreshReq = \<lparr>RefreshToken_rq = RefreshToken s\<rparr> in
             case newRequest lib c requestID ''POST'' ''/api/v1/auth/tokens/refresh''
                    (Some (marshal_RefreshRequest refreshReq)) of
               Inl err \<Rightarrow> (Some (Wrapped ''failed to create refresh request'' err), c, [])
             | Inr req \<Rightarrow>
                 (case doRequest lib c res (unmarshal_RefreshResponse lib) of
                    (Inl err, c') \<Rightarrow> (Some (Wrapped ''failed to refresh session'' err), c', [req])
                  | (Inr response, c') \<Rightarrow>
                      (case Error_rr response of
                         Some e \<Rightarrow> (Some (RefreshFailed e), c', [req])
                       | None \<Rightarrow>
                           (case time_Parse_RFC3339 lib (ExpiresAt_td (Data_rr response)) of
                              None \<Rightarrow>
                                (Some (Wrapped ''failed to parse expires_at'' ParseExpiresAtFailed),
                                 c', [req])
                            | Some expiresAt \<Rightarrow>
                                (None,
                                 c'\<lparr>session := map_option
                                      (\<lambda>s'. s'\<lparr>AccessToken := AccessToken_td (Data_rr response),
                                               RefreshToken := RefreshToken_td (Data_rr response),
                                               TokenType := TokenType_td (Data_rr response),
                                               ExpiresAt := expiresAt\<rparr>)
                                      (session c')\<rparr>,
                                 [req]))))))"

text \<open>utils.go: InitializeSession. The fields it does not name are zero.\<close>

definition InitializeSession :: "string \<Rightarrow> string \<Rightarrow> Session" where
  "InitializeSession refreshToken dh =
     \<lparr>AccessToken = [], RefreshToken = refreshToken, ExpiresAt = 0, TokenType = ''Bearer'',
      MarbleCookie = [], DeviceHash = dh\<rparr>"

definition InitializeFromRefreshToken ::
  "http_lib \<Rightarrow> string \<Rightarrow> http_result \<Rightarrow> Client \<Rightarrow> string \<Rightarrow> error option \<times> Client \<times> Request list" where
  "InitializeFromRefreshToken lib requestID res c refreshToken =
     RefreshSession lib requestID res
       (SetSession c (Some (InitializeSession refreshToken (deviceHash c))))"

section \<open>Transaction fetcher (client.go)\<close>

record TransactionFilters =
  Limit :: int
  After :: string
  CountBy :: string
  TimeFilter :: string
  Include :: string
  SortBy :: string
  SortOrder :: string
  StartDate :: Time
  EndDate :: Time
  AccountID :: string
  CategoryID :: string
  SubcategoryID :: string
  IncludeCountBy :: bool
  IncludeDetailed :: bool
  OrCategory :: bool

text \<open>
  \<open>url.Values\<close> is a map from a key to the list of its values: an association list with
  one entry per key. \<open>Set\<close> replaces the values of a key, \<open>Add\<close> appends one, and
  \<open>len\<close> is the number of keys.
\<close>

type_synonym Values = "(string \<times> string list) list"

fun Values_update :: "string \<Rightarrow> string list \<Rightarrow> Values \<Rightarrow> Values" where
  "Values_update k vs [] = [(k, vs)]"
| "Values_update k vs ((k', vs') # ps) =
     (if k' = k then (k, vs) # ps else (k', vs') # Values_update k vs ps)"

definition Values_Get :: "Values \<Rightarrow> string \<Rightarrow> string list" where
  "Values_Get ps k = (case map_of ps k of None \<Rightarrow> [] | Some vs \<Rightarrow> vs)"

definition Values_Set :: "string \<Rightarrow> string \<Rightarrow> Values \<Rightarrow> Values" where
  "Values_Set k v ps = Values_update k [v] ps"

definition Values_Add :: "string \<Rightarrow> string \<Rightarrow> Values \<Rightarrow> Values" where
  "Values_Add k v ps = Values_update k (Values_Get ps k @ [v]) ps"

text \<open>\<open>fmt.Sprintf("%d", n)\<close>: the decimal digits, with a minus sign below zero.\<close>

fun decimal :: "nat \<Rightarrow> string" where
  "decimal n = (if n < 10 then [char_of (48 + n)]
                else decimal (n div 10) @ [char_of (48 + n mod 10)])"

definition Sprintf_d :: "int \<Rightarrow> string" where
  "Sprintf_d n = (if n < 0 then CHR ''-'' # decimal (nat (- n)) else decimal (nat n))"

text \<open>
  A conditional statement without else branch that updates a variable in place,
  \<open>if b { x.update(...) }\<close>: the update is applied when the condition holds.
\<close>

definition applyIf :: "bool \<Rightarrow> ('s \<Rightarrow> 's) \<Rightarrow> 's \<Rightarrow> 's" where
  "applyIf b f x = (if b then f x else x)"

definition buildTransactionQueryParams :: "http_lib \<Rightarrow> TransactionFilters \<Rightarrow> Values" where
  "buildTransactionQueryParams lib filters =
     (let params = [];
          params = applyIf (Limit filters > 0)
                     (Values_Set ''limit'' (Sprintf_d (Limit filters))) params;
          params = applyIf (After filters \<noteq> [])
                     (Values_Set ''after'' (After filters)) params;
          params = applyIf (CountBy filters \<noteq> [])
                     (Values_Set ''count_by'' (CountBy filters)) params;
          params = applyIf (TimeFilter filters \<noteq> [])
                     (Values_Set ''time_filter'' (TimeFilter filters)) params;
          params = applyIf (Include filters \<noteq> [])
                     (Values_Add ''include[]'' (Include filters)) params;
          params = applyIf (SortBy filters \<noteq> [])
                     (Values_Set ''sort_by'' (SortBy filters)) params;
          params = applyIf (SortOrder filters \<noteq> [])
                     (Values_Set ''sort_order'' (SortOrder filters)) params;
          params = applyIf (\<not> Time_IsZero (StartDate filters))
                     (Values_Set ''start_date'' (time_Format_RFC3339 lib (StartDate filters))) params;
          params = applyIf (\<not> Time_IsZero (EndDate filters))
                     (Values_Set ''end_date'' (time_Format_RFC3339 lib (EndDate filters))) params;
          params = applyIf (CategoryID filters \<noteq> [])
                     (Values_Set ''category_id'' (CategoryID filters)) params;
          params = applyIf (AccountID filters \<noteq> [])
                     (Values_Set ''account_id[]'' (AccountID filters)) params;
          params = applyIf (SubcategoryID filters \<noteq> [])
                     (Values_Set ''subcategory_id'' (SubcategoryID filters)) params;
          params = applyIf (IncludeCountBy filters)
                     (Values_Add ''include[]'' ''count_by_totals'') params;
          params = applyIf (IncludeDetailed filters)
                     (Values_Add ''include[]'' ''detailed_search_summary'') params;
          params = applyIf (OrCategory filters)
                     (\<lambda>params. Values_Add ''or[]'' ''category_id''
                                 (Values_Add ''or[]'' ''subcategory_id'' params)) params
      in params)"

text \<open>
  The data of a transactions page. The element types of the two lists (models.go's
  Transaction and TransactionCount) are type parameters: the fetcher only moves the
  elements around.
\<close>

record ('t, 'c) TransactionsV3Data =
  Transactions :: "'t list"
  Counts :: "'c list"
  Total :: int
  After_data :: string

record ('t, 'c) TransactionsV3Response =
  Data_tr :: "('t, 'c) TransactionsV3Data"
  Error_tr :: "string option"

definition transactionsEndpoint :: "http_lib \<Rightarrow> string \<Rightarrow> Values \<Rightarrow> string" where
  "transactionsEndpoint lib userID params =
     (let endpoint = ''/api/v3/users/'' @ userID @ ''/transactions'' in
      if length params > 0 then endpoint @ ''?'' @ Values_Encode lib params else endpoint)"

text \<open>
  FetchTransactionsWithFilters returns the page or the error, the client afterwards and
  the requests sent. \<open>unmarshal\<close> is \<open>json.Unmarshal\<close> into a TransactionsV3Response.
\<close>

definition FetchTransactionsWithFilters ::
  "http_lib \<Rightarrow> (string \<Rightarrow> ('t, 'c) TransactionsV3Response option) \<Rightarrow> string \<Rightarrow> http_result \<Rightarrow>
   Client \<Rightarrow> string \<Rightarrow> TransactionFilters \<Rightarrow>
   (error + ('t, 'c) TransactionsV3Data) \<times> Client \<times> Request list" where
  "FetchTransactionsWithFilters lib unmarshal requestID res c userID filters =
     (case session c of
        None \<Rightarrow> (Inl NoSession, c, [])
      | Some s \<Rightarrow>
          (let params = buildTransactionQueryParams lib filters;
               endpoint = transactionsEndpoint lib userID params in
           case newRequest lib c requestID ''GET'' endpoint None of
             Inl err \<Rightarrow> (Inl (Wrapped ''failed to create request'' err), c, [])
           | Inr req \<Rightarrow>
               (case doRequest lib c res unmarshal of
                  (Inl err, c') \<Rightarrow> (Inl (Wrapped ''failed to fetch transactions'' err), c', [req])
                | (Inr response, c') \<Rightarrow>
                    (case Error_tr response of
                       Some e \<Rightarrow> (Inl (FetchFailed e), c', [req])
                     | None \<Rightarrow> (Inr (Data_tr response), c', [req])))))"

definition zeroFilters :: TransactionFilters where
  "zeroFilters = \<lparr>Limit = 0, After = [], CountBy = [], TimeFilter = [], Include = [],
     SortBy = [], SortOrder = [], StartDate = 0, EndDate = 0, AccountID = [], CategoryID = [],
     SubcategoryID = [], IncludeCountBy = False, IncludeDetailed = False, OrCategory = False\<rparr>"

definition FetchTransactions ::
  "http_lib \<Rightarrow> (string \<Rightarrow> ('t, 'c) TransactionsV3Response option) \<Rightarrow> string \<Rightarrow> http_result \<Rightarrow>
   Client \<Rightarrow> string \<Rightarrow> int \<Rightarrow> string \<Rightarrow>
   (error + ('t, 'c) TransactionsV3Data) \<times> Client \<times> Request list" where
  "FetchTransactions lib unmarshal requestID res c userID limit after =
     FetchTransactionsWithFilters lib unmarshal requestID res c userID
       (zeroFilters\<lparr>Limit := limit, After := after\<rparr>)"

text \<open>
  FetchAllTransactions. The network is \<open>world\<close>: for the k-th iteration of the loop, the
  request identifier drawn and the answer to the request. The loop has no bound of its
  own (a server that keeps sending full pages with a cursor keeps it running), so the
  model takes fuel, one unit per iteration, and \<open>None\<close> says the fuel ran out before the
  loop ended. The result carries, besides what the source returns, the client afterwards,
  the cursor passed to each FetchTransactions call and the requests sent, in order.
\<close>

record ('t, 'c) FetchAllResult =
  outcome :: "error + ('t list \<times> 'c list)"
  client :: Client
  cursors :: "string list"
  requests :: "Request list"

fun FetchAllTransactions_loop ::
  "http_lib \<Rightarrow> (string \<Rightarrow> ('t, 'c) TransactionsV3Response option) \<Rightarrow> (nat \<Rightarrow> string \<times> http_result) \<Rightarrow>
   string \<Rightarrow> int \<Rightarrow> nat \<Rightarrow> nat \<Rightarrow> string \<Rightarrow> 't list \<Rightarrow> 'c list \<Rightarrow> Client \<Rightarrow> string list \<Rightarrow>
   Request list \<Rightarrow> ('t, 'c) FetchAllResult option" where
  "FetchAllTransactions_loop lib unmarshal world userID limit 0 k after allTransactions allCounts
     c cs reqs = None"
| "FetchAllTransactions_loop lib unmarshal world userID limit (Suc fuel) k after allTransactions
     allCounts c cs reqs =
     (case FetchTransactions lib unmarshal (fst (world k)) (snd (world k)) c userID limit after of
        (Inl err, c', sent) \<Rightarrow>
          Some \<lparr>outcome = Inl err, client = c', cursors = cs @ [after], requests = reqs @ sent\<rparr>
      | (Inr data, c', sent) \<Rightarrow>
          (let allTransactions = allTransactions @ Transactions data;
               allCounts = (if length (Counts data) > 0 then allCounts @ Counts data
                            else allCounts)
           in if After_data data = [] \<or> int (length (Transactions data)) < limit
              then Some \<lparr>outcome = Inr (allTransactions, allCounts), client = c',
                         cursors = cs @ [after], requests = reqs @ sent\<rparr>
              else FetchAllTransactions_loop lib unmarshal world userID limit fuel (Suc k)
                     (After_data data) allTransactions allCounts c' (cs @ [after])
                     (reqs @ sent)))"

definition FetchAllTransactions ::
  "http_lib \<Rightarrow> (string \<Rightarrow> ('t, 'c) TransactionsV3Response option) \<Rightarrow> (nat \<Rightarrow> string \<times> http_result) \<Rightarrow>
   nat \<Rightarrow> Client \<Rightarrow> string \<Rightarrow> int \<Rightarrow> ('t, 'c) FetchAllResult option" where
  "FetchAllTransactions lib unmarshal world fuel c userID limit =
     FetchAllTransactions_loop lib unmarshal world userID limit fuel 0 [] [] [] c [] []"

section \<open>Device identity (utils.go)\<close>

unbundle bit_operations_syntax

type_synonym byte = "8 word"

text \<open>The verb \<open>%x\<close> on a byte slice: two lower-case hexadecimal digits per byte.\<close>

definition hexDigit :: "nat \<Rightarrow> char" where
  "hexDigit n = (if n < 10 then char_of (48 + n) else char_of (87 + n))"

definition Sprintf_x :: "byte list \<Rightarrow> string" where
  "Sprintf_x bs = concat (map (\<lambda>b. [hexDigit (unat b div 16), hexDigit (unat b mod 16)]) bs)"

text \<open>
  A byte slice with its capacity: the elements, and the bytes that lie between its length
  and its capacity. A slice expression \<open>s[lo:hi]\<close> on a slice is in range when
  \<open>lo \<le> hi \<le> cap(s)\<close> and panics otherwise.
\<close>

record ByteSlice =
  elems :: "byte list"
  spare :: "byte list"

datatype panic = SliceBoundsOutOfRange

definition slice_expr :: "ByteSlice \<Rightarrow> nat \<Rightarrow> nat \<Rightarrow> panic + byte list" where
  "slice_expr s lo hi =
     (if lo \<le> hi \<and> hi \<le> length (elems s) + length (spare s)
      then Inr (take (hi - lo) (drop lo (elems s @ spare s)))
      else Inl SliceBoundsOutOfRange)"

text \<open>
  The conversion \<open>[]byte(str)\<close>: the bytes of the string. The language leaves the
  capacity of the result to the implementation (it is at least the length); \<open>runtime_spare\<close>
  gives the bytes the runtime has behind the length for a string, up to the capacity.
\<close>

definition bytes_of_string :: "(string \<Rightarrow> byte list) \<Rightarrow> string \<Rightarrow> ByteSlice" where
  "bytes_of_string runtime_spare str = \<lparr>elems = map of_char str, spare = runtime_spare str\<rparr>"

definition uuid_format :: "byte list \<Rightarrow> byte list \<Rightarrow> byte list \<Rightarrow> byte list \<Rightarrow> byte list \<Rightarrow> string" where
  "uuid_format a b c d e =
     Sprintf_x a @ ''-'' @ Sprintf_x b @ ''-'' @ Sprintf_x c @ ''-'' @ Sprintf_x d @ ''-''
       @ Sprintf_x e"

text \<open>
  GenerateDeviceHash. \<open>rand\<close> is the outcome of \<open>rand.Read\<close> on the 16-byte buffer:
  \<open>None\<close> for an error, otherwise the bytes drawn. \<open>hostname\<close> is what
  \<open>os.Hostname()\<close> returned (the empty string with its error, which the source drops),
  \<open>USER\<close> and \<open>USERNAME\<close> the two environment variables. The result is the string, or
  the panic of the first slice expression out of range.
\<close>

definition GenerateDeviceHash ::
  "(string \<Rightarrow> byte list) \<Rightarrow> byte list option \<Rightarrow> string \<Rightarrow> string \<Rightarrow> string \<Rightarrow> panic + string" where
  "GenerateDeviceHash runtime_spare rand hostname USER USERNAME =
     (case rand of
        None \<Rightarrow>
          (let user = USER;
               user = (if user = [] then USERNAME else user);
               fallback = ''fintrack-'' @ hostname @ ''-'' @ user;
               fb = bytes_of_string runtime_spare fallback
           in case slice_expr fb 0 4 of Inl p \<Rightarrow> Inl p | Inr a \<Rightarrow>
             (case slice_expr fb 4 6 of Inl p \<Rightarrow> Inl p | Inr b \<Rightarrow>
             (case slice_expr fb 6 8 of Inl p \<Rightarrow> Inl p | Inr c \<Rightarrow>
             (case slice_expr fb 8 10 of Inl p \<Rightarrow> Inl p | Inr d \<Rightarrow>
             (case slice_expr fb 10 16 of Inl p \<Rightarrow> Inl p | Inr e \<Rightarrow>
                Inr (uuid_format a b c d e))))))
      | Some drawn \<Rightarrow>
          (let b = take 16 (drawn @ replicate 16 0);
               b = b[6 := (b ! 6 AND 0x0f) OR 0x40];
               b = b[8 := (b ! 8 AND 0x3f) OR 0x80]
           in Inr (uuid_format (take 4 b) (take 2 (drop 4 b)) (take 2 (drop 6 b))
                     (take 2 (drop 8 b)) (drop 10 b))))"

section \<open>OTP login flow (login.go)\<close>

definition SetLogging :: "Client \<Rightarrow> bool \<Rightarrow> Client" where
  "SetLogging c enabled = c\<lparr>enableLogging := enabled\<rparr>"

text \<open>
  Modelled from the spec: the client methods GetDeviceHash and SetDeviceHash are called
  by login.go and are not among the sources; by the spec's section 4.4 and its design
  notes the flow mutates the client's device identity and restores it, so they read and
  write the client's \<open>deviceHash\<close> field.
\<close>

definition GetDeviceHash :: "Client \<Rightarrow> string" where
  "GetDeviceHash c = deviceHash c"

definition SetDeviceHash :: "Client \<Rightarrow> string \<Rightarrow> Client" where
  "SetDeviceHash c dh = c\<lparr>deviceHash := dh\<rparr>"

text \<open>
  The client methods RequestOTP and VerifyOTP are not among the sources either; they are
  parameters: each takes the client and its three string arguments and returns its result
  and the client afterwards. VerifyOTP yields the verify data (of which the flow reads the
  refresh token) and the marble cookie.
\<close>

record VerifyData =
  RefreshToken_vd :: string

record otp_api =
  RequestOTP :: "Client \<Rightarrow> string \<Rightarrow> string \<Rightarrow> string \<Rightarrow> error option \<times> Client"
  VerifyOTP :: "Client \<Rightarrow> string \<Rightarrow> string \<Rightarrow> string \<Rightarrow> (error + VerifyData \<times> string) \<times> Client"

text \<open>
  Every request the client builds carries its \<open>deviceHash\<close> field as the X-Device-Hash
  header (setDeviceHeaders), so a call is recorded with the device hash the client has
  when the call is made: phone, channel or code, request identifier, device hash.
\<close>

datatype otp_call =
    RequestOTP_call string string string string
  | VerifyOTP_call string string string string

text \<open>
  What the flow reads from outside: the \<open>--phone\<close> and \<open>--otp\<close> flags, the two
  lines read from standard input (\<open>None\<close> when \<open>ReadString\<close> fails), the two
  identifiers GenerateDeviceHash returns, and the outcomes of the steps that follow the
  exchange (updating the configuration file, reloading it, and the refresh-token login,
  which builds a client of its own from the reloaded configuration).
\<close>

record login_env =
  phone :: string
  otp :: string
  stdin_phone :: "string option"
  stdin_otp :: "string option"
  new_requestID :: string
  new_deviceHash :: string
  updateConfig_error :: "error option"
  reload_error :: "error option"
  relogin_error :: "error option"

text \<open>
  \<open>strings.TrimSpace\<close> removes the leading and the trailing white space of a string, rune
  by rune, where white space is what \<open>unicode.IsSpace\<close> accepts: tab, newline, vertical
  tab, form feed, carriage return, space, U+0085, U+00A0, U+1680, U+2000 to U+200A, U+2028,
  U+2029, U+202F, U+205F and U+3000. Leading runes are decoded forwards
  (\<open>utf8.DecodeRune\<close>), trailing ones backwards (\<open>utf8.DecodeLastRune\<close>, which looks
  for the start of the last rune among the last four bytes and accepts it only when the
  rune decoded there ends at the end of the string).
\<close>

definition IsSpace :: "int \<Rightarrow> bool" where
  "IsSpace r = (r = 9 \<or> r = 10 \<or> r = 11 \<or> r = 12 \<or> r = 13 \<or> r = 32 \<or> r = 133 \<or> r = 160
                \<or> r = 5760 \<or> (8192 \<le> r \<and> r \<le> 8202) \<or> r = 8232 \<or> r = 8233 \<or> r = 8239
                \<or> r = 8287 \<or> r = 12288)"

definition RuneStart :: "char \<Rightarrow> bool" where
  "RuneStart b = (\<not> (128 \<le> (of_char b :: nat) \<and> (of_char b :: nat) < 192))"

definition DecodeLastRune :: "string \<Rightarrow> int \<times> nat" where
  "DecodeLastRune p =
     (if p = [] then (RuneError, 0)
      else if (of_char (last p) :: nat) < 128 then (int (of_char (last p)), 1)
      else
        (let end = length p;
             lim = end - 4;
             start = (case find (\<lambda>i. RuneStart (p ! i)) (rev [lim..<end - 1]) of
                        Some i \<Rightarrow> i
                      | None \<Rightarrow> lim - 1)
         in if start + snd (DecodeRune (drop start p)) \<noteq> end then (RuneError, 1)
            else DecodeRune (drop start p)))"

function TrimLeft :: "string \<Rightarrow> string" where
  "TrimLeft str =
     (if str = [] then []
      else if IsSpace (fst (DecodeRune str)) then TrimLeft (drop (snd (DecodeRune str)) str)
      else str)"
  by pat_completeness auto
termination
proof (relation "measure length")
  show "wf (measure length)" by simp
next
  fix str :: string
  assume "str \<noteq> []"
  then have "0 < snd (DecodeRune str)"
    by (cases str) (simp_all add: DecodeRune_def Let_def)
  with \<open>str \<noteq> []\<close> show "(drop (snd (DecodeRune str)) str, str) \<in> measure length"
    by simp
qed

function TrimRight :: "string \<Rightarrow> string" where
  "TrimRight str =
     (if str = [] then []
      else if IsSpace (fst (DecodeLastRune str))
      then TrimRight (take (length str - snd (DecodeLastRune str)) str)
      else str)"
  by pat_completeness auto
termination
proof (relation "measure length")
  show "wf (measure length)" by simp
next
  fix str :: string
  assume ne: "str \<noteq> []" and sp: "IsSpace (fst (DecodeLastRune str))"
  define start where "start = (case find (\<lambda>i. RuneStart (str ! i)) (rev [length str - 4..<length str - 1]) of
                        Some i \<Rightarrow> i
                      | None \<Rightarrow> length str - 4 - 1)"
  have lt: "start < length str"
  proof (cases "find (\<lambda>i. RuneStart (str ! i)) (rev [length str - 4..<length str - 1])")
    case None
    with ne show ?thesis
      by (simp add: start_def)
  next
    case (Some i)
    then have "i \<in> set (rev [length str - 4..<length str - 1])"
      by (metis find_Some_iff nth_mem)
    then have "i < length str"
      by auto
    with Some show ?thesis
      by (simp add: start_def)
  qed
  have unf: "DecodeLastRune str =
      (if (of_char (last str) :: nat) < 128 then (int (of_char (last str)), 1)
       else if start + snd (DecodeRune (drop start str)) \<noteq> length str then (RuneError, 1)
       else DecodeRune (drop start str))"
    using ne by (simp add: DecodeLastRune_def Let_def start_def)
  have "0 < snd (DecodeLastRune str)"
    using lt by (auto simp: unf)
  with ne show "(take (length str - snd (DecodeLastRune str)) str, str) \<in> measure length"
    by simp
qed

declare TrimLeft.simps [simp del]

declare TrimRight.simps [simp del]

definition TrimSpace :: "string \<Rightarrow> string" where
  "TrimSpace str = TrimRight (TrimLeft str)"

record OTPLoginResult =
  err :: "error option"
  client_after :: Client
  calls :: "otp_call list"

definition runOTPLogin :: "otp_api \<Rightarrow> login_env \<Rightarrow> Client \<Rightarrow> OTPLoginResult" where
  "runOTPLogin api env c0 =
     (let c = SetLogging c0 True in
      case (if phone env = []
            then (case stdin_phone env of
                    None \<Rightarrow> Inl (Wrapped ''failed to read phone number'' ReadInputFailed)
                  | Some phoneInput \<Rightarrow> Inr (TrimSpace phoneInput))
            else Inr (phone env)) of
        Inl e \<Rightarrow> \<lparr>err = Some e, client_after = c, calls = []\<rparr>
      | Inr ph \<Rightarrow>
          if ph = [] then \<lparr>err = Some PhoneNumberRequired, client_after = c, calls = []\<rparr>
          else
            (let requestID = new_requestID env;
                 dh = new_deviceHash env;
                 originalDeviceHash = GetDeviceHash c;
                 c = SetDeviceHash c dh;
                 call1 = RequestOTP_call ph ''sms'' requestID (deviceHash c)
             in case RequestOTP api c ph ''sms'' requestID of
                  (Some e, c) \<Rightarrow>
                    \<lparr>err = Some (Wrapped ''failed to request OTP'' e),
                     client_after = SetDeviceHash c originalDeviceHash, calls = [call1]\<rparr>
                | (None, c) \<Rightarrow>
                    (case (if otp env = []
                           then (case stdin_otp env of
                                   None \<Rightarrow> Inl (Wrapped ''failed to read OTP'' ReadInputFailed)
                                 | Some otpInput \<Rightarrow> Inr (TrimSpace otpInput))
                           else Inr (otp env)) of
                       Inl e \<Rightarrow>
                         \<lparr>err = Some e, client_after = SetDeviceHash c originalDeviceHash,
                          calls = [call1]\<rparr>
                     | Inr otpCode \<Rightarrow>
                         if otpCode = []
                         then \<lparr>err = Some OTPCodeRequired,
                               client_after = SetDeviceHash c originalDeviceHash,
                               calls = [call1]\<rparr>
                         else
                           (let call2 = VerifyOTP_call ph otpCode requestID (deviceHash c) in
                            case VerifyOTP api c ph otpCode requestID of
                              (Inl e, c) \<Rightarrow>
                                \<lparr>err = Some (Wrapped ''failed to verify OTP'' e),
                                 client_after = SetDeviceHash c originalDeviceHash,
                                 calls = [call1, call2]\<rparr>
                            | (Inr (verifyData, marbleCookie), c) \<Rightarrow>
                                (let c = SetDeviceHash c originalDeviceHash in
                                 case updateConfig_error env of
                                   Some e \<Rightarrow>
                                     \<lparr>err = Some (Wrapped ''failed to update config'' e),
                                      client_after = c, calls = [call1, call2]\<rparr>
                                 | None \<Rightarrow>
                                     (case reload_error env of
                                        Some e \<Rightarrow>
                                          \<lparr>err = Some (Wrapped ''failed to reload configuration'' e),
                                           client_after = c, calls = [call1, call2]\<rparr>
                                      | None \<Rightarrow>
                                          \<lparr>err = relogin_error env, client_after = c,
                                           calls = [call1, call2]\<rparr>))))))"

section \<open>Notions the properties are stated with\<close>

text \<open>
  A session is well formed for the JSON library when the library can write and read back
  what SaveSession hands it: the expiry has a JSON form that parses back to the same
  instant, and the rendered text of the session's JSON object parses back to that object
  (for encoding/json: the strings are valid UTF-8 and the expiry's year is within
  0..9999).
\<close>

definition well_formed :: "json_lib \<Rightarrow> Session \<Rightarrow> bool" where
  "well_formed lib S =
     (case marshal_Session lib (Some S) of
        None \<Rightarrow> False
      | Some j \<Rightarrow>
          json_parse lib (json_render lib j) = Some j
          \<and> (case time_MarshalJSON lib (ExpiresAt S) of
                None \<Rightarrow> False
              | Some ts \<Rightarrow> time_UnmarshalJSON lib ts = Some (ExpiresAt S)))"

text \<open>
  An instance of the library parameters for examples: a fixed text for the one session
  object the examples store, and a fixed JSON form for the instant 7.
\<close>

definition example_json_lib :: json_lib where
  "example_json_lib =
     \<lparr>json_render = (\<lambda>j. ''{session}''),
      json_parse = (\<lambda>t. if t = ''{session}'' then Some (JObject
               [(''access_token'', JString ''a''),
                (''refresh_token'', JString ''r''),
                (''expires_at'', JString ''0001-01-01T00:00:00.000000007Z''),
                (''token_type'', JString ''Bearer''),
                (''marble_cookie'', JString ''m''),
                (''device_hash'', JString ''d'')]) else None),
      time_MarshalJSON = (\<lambda>t. if t = 7 then Some ''0001-01-01T00:00:00.000000007Z'' else None),
      time_UnmarshalJSON = (\<lambda>s. if s = ''0001-01-01T00:00:00.000000007Z'' then Some 7 else None),
      json_equalFold = (\<lambda>tag key. tag = key)\<rparr>"

definition example_session :: Session where
  "example_session = \<lparr>AccessToken = ''a'', RefreshToken = ''r'', ExpiresAt = 7,
     TokenType = ''Bearer'', MarbleCookie = ''m'', DeviceHash = ''d''\<rparr>"

definition empty_fs :: FileSystem where
  "empty_fs = \<lparr>files = (\<lambda>p. None), mkdir_fails = (\<lambda>p. False), write_fails = (\<lambda>p. False),
     read_fails = (\<lambda>p. False)\<rparr>"

text \<open>
  The refresh exchange succeeds when the network answers with a 2xx status and a body
  that decodes as a refresh response; this gives the decoded response.
\<close>

definition refresh_exchange :: "http_lib \<Rightarrow> http_result \<Rightarrow> RefreshResponse option" where
  "refresh_exchange lib res =
     (case res of
        Responded resp \<Rightarrow>
          if 200 \<le> StatusCode resp \<and> StatusCode resp < 300
          then unmarshal_RefreshResponse lib (Body resp) else None
      | _ \<Rightarrow> None)"

definition refreshURL :: "Client \<Rightarrow> string" where
  "refreshURL c = baseURL c @ ''/api/v1/auth/tokens/refresh''"

text \<open>
  Library parameters and a client for examples: the body \<open>{ok}\<close> decodes to a refresh
  response with tokens and the expiry text \<open>T1\<close>, which parses to an instant one hour
  after the instant 0; the body \<open>{err}\<close> decodes to an envelope with a non-null error.
\<close>

definition example_http_lib :: http_lib where
  "example_http_lib =
     \<lparr>NewRequest_fails = (\<lambda>m u. False),
      unmarshal_APIResponse = (\<lambda>b. None),
      unmarshal_RefreshResponse = (\<lambda>b.
         if b = ''{ok}'' then Some \<lparr>Data_rr = \<lparr>TokenType_td = ''Bearer'',
              AccessToken_td = ''access1'', RefreshToken_td = ''refresh1'', ExpiresAt_td = ''T1''\<rparr>,
              Error_rr = None\<rparr>
         else if b = ''{err}'' then Some \<lparr>Data_rr = \<lparr>TokenType_td = [],
              AccessToken_td = [], RefreshToken_td = [], ExpiresAt_td = []\<rparr>,
              Error_rr = Some ''invalid refresh token''\<rparr>
         else None),
      time_Parse_RFC3339 = (\<lambda>t. if t = ''T1'' then Some (60 * Minute) else None),
      time_Format_RFC3339 = (\<lambda>t. ''T''),
      Values_Encode = (\<lambda>ps. concat (map (\<lambda>(k, vs). concat (map (\<lambda>v. k @ ''='' @ v @ ''&'') vs)) ps))\<rparr>"

definition example_client :: Client where
  "example_client = \<lparr>baseURL = ''https://api'', session = None, deviceHash = ''d1'',
     deviceType = ''web'', deviceLocation = ''IN'', enableLogging = False\<rparr>"

text \<open>
  The filter set in which every field is empty, zero or false (a limit that is not
  positive counts as unset), and the keys a transactions query can carry.
\<close>

definition no_filters :: "TransactionFilters \<Rightarrow> bool" where
  "no_filters f =
     (Limit f \<le> 0 \<and> After f = [] \<and> CountBy f = [] \<and> TimeFilter f = [] \<and> Include f = []
      \<and> SortBy f = [] \<and> SortOrder f = [] \<and> Time_IsZero (StartDate f) \<and> Time_IsZero (EndDate f)
      \<and> AccountID f = [] \<and> CategoryID f = [] \<and> SubcategoryID f = []
      \<and> \<not> IncludeCountBy f \<and> \<not> IncludeDetailed f \<and> \<not> OrCategory f)"

definition query_keys :: "string set" where
  "query_keys = {''limit'', ''after'', ''count_by'', ''time_filter'', ''include[]'', ''sort_by'',
     ''sort_order'', ''start_date'', ''end_date'', ''category_id'', ''account_id[]'',
     ''subcategory_id'', ''or[]''}"

text \<open>
  What the OTP flow needs of the two absent client methods: neither changes the client's
  device hash.
\<close>

definition preserves_deviceHash :: "otp_api \<Rightarrow> bool" where
  "preserves_deviceHash api =
     (\<forall>c p x r. deviceHash (snd (RequestOTP api c p x r)) = deviceHash c
               \<and> deviceHash (snd (VerifyOTP api c p x r)) = deviceHash c)"

text \<open>
  An instance for examples: requesting always succeeds, verifying succeeds for the code
  123456; the phone number comes from the flag and the code from standard input.
\<close>

definition example_otp_api :: otp_api where
  "example_otp_api =
     \<lparr>RequestOTP = (\<lambda>c p ch r. (None, c)),
      VerifyOTP = (\<lambda>c p code r.
         if code = ''123456'' then (Inr (\<lparr>RefreshToken_vd = ''refresh0''\<rparr>, ''cookie0''), c)
         else (Inl (APIRequestFailed 401 ''invalid otp''), c))\<rparr>"

definition example_login_env :: login_env where
  "example_login_env = \<lparr>phone = ''+15550100'', otp = [], stdin_phone = None,
     stdin_otp = Some ''123456 '', new_requestID = ''req-1'', new_deviceHash = ''dev-otp'',
     updateConfig_error = None, reload_error = None, relogin_error = None\<rparr>"

text \<open>
  The two later parts of runOTPLogin, named so that they can be reasoned about one at a
  time: the flow from the request call on, and the flow from the verify call on
  (\<open>runOTPLogin_unfold\<close> below shows that runOTPLogin is composed of them).
\<close>

definition otp_verify_step ::
  "otp_api \<Rightarrow> login_env \<Rightarrow> Client \<Rightarrow> string \<Rightarrow> string \<Rightarrow> otp_call \<Rightarrow> string \<Rightarrow> OTPLoginResult" where
  "otp_verify_step api env c originalDeviceHash ph call1 otpCode =
     (let call2 = VerifyOTP_call ph otpCode (new_requestID env) (deviceHash c) in
      case VerifyOTP api c ph otpCode (new_requestID env) of
        (Inl e, c) \<Rightarrow>
          \<lparr>err = Some (Wrapped ''failed to verify OTP'' e),
           client_after = SetDeviceHash c originalDeviceHash,
           calls = [call1, call2]\<rparr>
      | (Inr (verifyData, marbleCookie), c) \<Rightarrow>
          (let c = SetDeviceHash c originalDeviceHash in
           case updateConfig_error env of
             Some e \<Rightarrow>
               \<lparr>err = Some (Wrapped ''failed to update config'' e),
                client_after = c, calls = [call1, call2]\<rparr>
           | None \<Rightarrow>
               (case reload_error env of
                  Some e \<Rightarrow>
                    \<lparr>err = Some (Wrapped ''failed to reload configuration'' e),
                     client_after = c, calls = [call1, call2]\<rparr>
                | None \<Rightarrow>
                    \<lparr>err = relogin_error env, client_after = c,
                     calls = [call1, call2]\<rparr>)))"

definition otp_exchange :: "otp_api \<Rightarrow> login_env \<Rightarrow> Client \<Rightarrow> string \<Rightarrow> OTPLoginResult" where
  "otp_exchange api env c ph =
     (let requestID = new_requestID env;
          dh = new_deviceHash env;
          originalDeviceHash = GetDeviceHash c;
          c = SetDeviceHash c dh;
          call1 = RequestOTP_call ph ''sms'' requestID (deviceHash c)
      in case RequestOTP api c ph ''sms'' requestID of
           (Some e, c) \<Rightarrow>
             \<lparr>err = Some (Wrapped ''failed to request OTP'' e),
              client_after = SetDeviceHash c originalDeviceHash, calls = [call1]\<rparr>
         | (None, c) \<Rightarrow>
             (case (if otp env = []
                    then (case stdin_otp env of
                            None \<Rightarrow> Inl (Wrapped ''failed to read OTP'' ReadInputFailed)
                          | Some otpInput \<Rightarrow> Inr (TrimSpace otpInput))
                    else Inr (otp env)) of
                Inl e \<Rightarrow>
                  \<lparr>err = Some e, client_after = SetDeviceHash c originalDeviceHash,
                   calls = [call1]\<rparr>
              | Inr otpCode \<Rightarrow>
                  if otpCode = []
                  then \<lparr>err = Some OTPCodeRequired,
                        client_after = SetDeviceHash c originalDeviceHash,
                        calls = [call1]\<rparr>
                  else otp_verify_step api env c originalDeviceHash ph call1 otpCode))"

text \<open>
  The bytes isTextContent counts (below 32 and not newline, carriage return or tab), and
  data that is ASCII throughout.
\<close>

definition isControl :: "char \<Rightarrow> bool" where
  "isControl ch = ((of_char ch :: nat) < 32 \<and> ch \<noteq> CHR 0x0A \<and> ch \<noteq> CHR 0x0D \<and> ch \<noteq> CHR 0x09)"

definition ascii :: "string \<Rightarrow> bool" where
  "ascii str = (\<forall>ch \<in> set str. (of_char ch :: nat) < 128)"

text \<open>
  What one page request yields, as a function of the network's answer alone (for a client
  that has a session and a URL that is accepted): the page, or the error
  FetchTransactionsWithFilters returns.
\<close>

definition fetch_exchange ::
  "http_lib \<Rightarrow> (string \<Rightarrow> ('t, 'c) TransactionsV3Response option) \<Rightarrow> http_result \<Rightarrow>
   error + ('t, 'c) TransactionsV3Data" where
  "fetch_exchange lib unmarshal res =
     (case res of
        DoFailed \<Rightarrow>
          Inl (Wrapped ''failed to fetch transactions''
                 (Wrapped ''HTTP request failed'' HTTPRequestFailed))
      | BodyFailed \<Rightarrow> Inl (Wrapped ''failed to fetch transactions'' ReadBodyFailed)
      | Responded resp \<Rightarrow>
          if StatusCode resp < 200 \<or> StatusCode resp \<ge> 300
          then Inl (Wrapped ''failed to fetch transactions''
                      (handleErrorResponse lib resp (Body resp)))
          else (case unmarshal (Body resp) of
                  None \<Rightarrow>
                    Inl (Wrapped ''failed to fetch transactions''
                           (Wrapped ''failed to decode response'' DecodeResponseFailed))
                | Some response \<Rightarrow>
                    (case Error_tr response of
                       Some e \<Rightarrow> Inl (FetchFailed e)
                     | None \<Rightarrow> Inr (Data_tr response))))"

text \<open>The ceiling of a quotient, for a positive divisor.\<close>

definition ceil_div :: "int \<Rightarrow> int \<Rightarrow> int" where
  "ceil_div a b = (a + b - 1) div b"

text \<open>
  A server for examples: it answers the first request with a full page of two
  transactions and a cursor, and every later request with an empty page without cursor.
\<close>

definition example_unmarshal_page :: "string \<Rightarrow> (nat, nat) TransactionsV3Response option" where
  "example_unmarshal_page b =
     (if b = ''{page0}''
      then Some \<lparr>Data_tr = \<lparr>Transactions = [1, 2], Counts = [7], Total = 2,
                  After_data = ''cur1''\<rparr>, Error_tr = None\<rparr>
      else if b = ''{page1}''
      then Some \<lparr>Data_tr = \<lparr>Transactions = [], Counts = [], Total = 2, After_data = []\<rparr>,
                  Error_tr = None\<rparr>
      else None)"

definition example_world :: "nat \<Rightarrow> string \<times> http_result" where
  "example_world i =
     (if i = 0 then (''req0'', Responded \<lparr>StatusCode = 200, Cookies = [], Body = ''{page0}''\<rparr>)
      else (''req1'', Responded \<lparr>StatusCode = 200, Cookies = [], Body = ''{page1}''\<rparr>))"

text \<open>
  A page after which the loop goes on: it has a cursor and is not shorter than the limit.
  \<open>page\<close> is the page answered at an iteration, and \<open>page_url\<close> the URL
  FetchTransactions requests for a cursor.
\<close>

definition continues :: "int \<Rightarrow> ('t, 'c) TransactionsV3Data \<Rightarrow> bool" where
  "continues limit d = (After_data d \<noteq> [] \<and> \<not> int (length (Transactions d)) < limit)"

definition page ::
  "http_lib \<Rightarrow> (string \<Rightarrow> ('t, 'c) TransactionsV3Response option) \<Rightarrow> (nat \<Rightarrow> string \<times> http_result) \<Rightarrow>
   nat \<Rightarrow> ('t, 'c) TransactionsV3Data" where
  "page lib unmarshal world i = projr (fetch_exchange lib unmarshal (snd (world i)))"

definition page_url :: "http_lib \<Rightarrow> Client \<Rightarrow> string \<Rightarrow> int \<Rightarrow> string \<Rightarrow> string" where
  "page_url lib c userID limit after =
     baseURL c @ transactionsEndpoint lib userID
       (buildTransactionQueryParams lib (zeroFilters\<lparr>Limit := limit, After := after\<rparr>))"

text \<open>
  \<open>http.NewRequest\<close> accepts the GET request for the page at a cursor. The cursors
  FetchAllTransactions sends when the pages 0 to k-1 go on are the empty one and the
  cursors of those pages.
\<close>

definition page_url_accepted :: "http_lib \<Rightarrow> Client \<Rightarrow> string \<Rightarrow> int \<Rightarrow> string \<Rightarrow> bool" where
  "page_url_accepted lib c userID limit after =
     (\<not> NewRequest_fails lib ''GET'' (page_url lib c userID limit after))"

definition cursors_sent ::
  "http_lib \<Rightarrow> (string \<Rightarrow> ('t, 'c) TransactionsV3Response option) \<Rightarrow> (nat \<Rightarrow> string \<times> http_result) \<Rightarrow>
   nat \<Rightarrow> string list" where
  "cursors_sent lib unmarshal world k =
     [] # map (\<lambda>i. After_data (page lib unmarshal world i)) [0..<k]"

text \<open>
  What GenerateDeviceHash needs of the runtime: the byte slice converted from a string of
  at least 10 bytes has a capacity of at least 16. The gc runtime allocates the converted
  slice of a string of 9 to 16 bytes in its 16-byte size class and zeroes the bytes behind
  the length; \<open>gc_runtime_spare\<close> says this, and says nothing of other lengths (it
  gives them no spare bytes, which is the least a runtime can give).
\<close>

definition capacity_16 :: "(string \<Rightarrow> byte list) \<Rightarrow> bool" where
  "capacity_16 runtime_spare =
     (\<forall>str. 10 \<le> length str \<longrightarrow> 16 \<le> length str + length (runtime_spare str))"

definition gc_runtime_spare :: "string \<Rightarrow> byte list" where
  "gc_runtime_spare str =
     (if 9 \<le> length str \<and> length str \<le> 16 then replicate (16 - length str) 0 else [])"

section \<open>Verification: session store\<close>

text \<open>
  C1 (as amended). IsSessionValid is true exactly when the session is present, its access
  token is non-empty and the clock plus the five-minute buffer is not after the expiry:
  the code rejects with \<open>After\<close>, which is strict, so a session whose expiry is exactly
  five minutes ahead is still valid. A nil session and a session without access token are
  never valid.
\<close>

theorem IsSessionValid_iff_not_after:
  "(IsSessionValid now sess \<longleftrightarrow>
      (\<exists>s. sess = Some s \<and> AccessToken s \<noteq> [] \<and> now + 5 * Minute \<le> ExpiresAt s))
   \<and> \<not> IsSessionValid now None
   \<and> (AccessToken s0 = [] \<longrightarrow> \<not> IsSessionValid now (Some s0))"
  by (auto simp: IsSessionValid_def Time_After_def Time_Add_def split: option.splits)

theorem IsSessionValid_iff_not_after_witness:
  "IsSessionValid 1000 (Some \<lparr>AccessToken = ''tok'', RefreshToken = ''r'',
      ExpiresAt = 300000002000, TokenType = ''Bearer'', MarbleCookie = [], DeviceHash = ''d1''\<rparr>)
   \<and> \<not> IsSessionValid 1000 (Some \<lparr>AccessToken = [], RefreshToken = ''r'',
      ExpiresAt = 300000002000, TokenType = ''Bearer'', MarbleCookie = [], DeviceHash = ''d1''\<rparr>)"
  using IsSessionValid_iff_not_after [of 1000 "Some \<lparr>AccessToken = ''tok'', RefreshToken = ''r'',
      ExpiresAt = 300000002000, TokenType = ''Bearer'', MarbleCookie = [], DeviceHash = ''d1''\<rparr>"
      "\<lparr>AccessToken = [], RefreshToken = ''r'',
      ExpiresAt = 300000002000, TokenType = ''Bearer'', MarbleCookie = [], DeviceHash = ''d1''\<rparr>"]
  by (simp add: Minute_def)

text \<open>
  C1 as the spec states it (validity iff the clock plus five minutes is strictly before
  the expiry) fails where the expiry is exactly five minutes ahead: the session is valid
  although \<open>now + 5m < expiry\<close> is false.
\<close>

theorem IsSessionValid_strict_counterexample:
  "IsSessionValid 0 (Some \<lparr>AccessToken = ''tok'', RefreshToken = [], ExpiresAt = 300000000000,
      TokenType = [], MarbleCookie = [], DeviceHash = []\<rparr>)
   \<and> \<not> ((0::int) + 5 * Minute < 300000000000)"
  by (simp add: IsSessionValid_def Time_After_def Time_Add_def Minute_def)

lemma unmarshal_marshal_Session:
  assumes "time_MarshalJSON lib (ExpiresAt S) = Some ts"
    and "time_UnmarshalJSON lib ts = Some (ExpiresAt S)"
    and "marshal_Session lib (Some S) = Some j"
  shows "unmarshal_Session lib j = Some S"
  using assms
  by (auto simp: marshal_Session_def unmarshal_Session_def set_field_def set_string_def
      field_of_key_def session_tags_def zeroSession_def)

text \<open>
  C7. For a well-formed session, when the directory can be created and the session file
  written and read, SaveSession succeeds and LoadSession on the file system it leaves
  returns the session saved, all six fields included.
\<close>

theorem SaveSession_LoadSession_roundtrip:
  assumes wf: "well_formed lib S"
    and mk: "\<not> mkdir_fails fs sessionFile"
    and wr: "\<not> write_fails fs sessionFile"
    and rd: "\<not> read_fails fs sessionFile"
  shows "\<exists>fs'. SaveSession lib sessionFile fs (Some S) = Inr fs'
               \<and> LoadSession lib sessionFile fs' = Inr S"
proof -
  from wf obtain j ts where j: "marshal_Session lib (Some S) = Some j"
    and parse: "json_parse lib (json_render lib j) = Some j"
    and t1: "time_MarshalJSON lib (ExpiresAt S) = Some ts"
    and t2: "time_UnmarshalJSON lib ts = Some (ExpiresAt S)"
    by (auto simp: well_formed_def split: option.splits)
  let ?fs' = "fs\<lparr>files := (files fs)(sessionFile \<mapsto> json_render lib j)\<rparr>"
  have save: "SaveSession lib sessionFile fs (Some S) = Inr ?fs'"
    using mk wr j by (simp add: SaveSession_def)
  have "unmarshal_Session lib j = Some S"
    by (rule unmarshal_marshal_Session [OF t1 t2 j])
  then have "LoadSession lib sessionFile ?fs' = Inr S"
    using rd parse by (simp add: LoadSession_def)
  with save show ?thesis by blast
qed

theorem SaveSession_LoadSession_roundtrip_witness:
  "\<exists>fs'. SaveSession example_json_lib ''session.json'' empty_fs (Some example_session) = Inr fs'
         \<and> LoadSession example_json_lib ''session.json'' fs' = Inr example_session"
  by (rule SaveSession_LoadSession_roundtrip)
     (simp_all add: well_formed_def example_json_lib_def example_session_def empty_fs_def
        marshal_Session_def)

text \<open>
  C9. GetSessionInfo never returns an error. Whenever LoadSession fails (the file is
  absent, cannot be read, is not JSON, or is JSON that is not a session) it reports the
  same info: not existing, not valid, everything else zero. The remaining time is zero
  unless the session is valid, and for a valid session it is the time until the expiry.
\<close>

theorem GetSessionInfo_never_fails:
  "snd (GetSessionInfo lib sessionFile fs now1 now2) = None
   \<and> (isl (LoadSession lib sessionFile fs) \<longrightarrow>
        fst (GetSessionInfo lib sessionFile fs now1 now2) =
          \<lparr>Exists = False, Valid = False, ExpiresAt_info = 0, TimeRemaining = 0,
           HasRefreshToken = False\<rparr>)
   \<and> (files fs sessionFile = None \<longrightarrow> isl (LoadSession lib sessionFile fs))
   \<and> (read_fails fs sessionFile \<longrightarrow> isl (LoadSession lib sessionFile fs))
   \<and> (files fs sessionFile = Some d \<and> json_parse lib d = None \<longrightarrow>
        isl (LoadSession lib sessionFile fs))
   \<and> (files fs sessionFile = Some d \<and> json_parse lib d = Some j
        \<and> unmarshal_Session lib j = None \<longrightarrow>
        isl (LoadSession lib sessionFile fs))
   \<and> (\<not> Valid (fst (GetSessionInfo lib sessionFile fs now1 now2)) \<longrightarrow>
        TimeRemaining (fst (GetSessionInfo lib sessionFile fs now1 now2)) = 0)
   \<and> (Valid (fst (GetSessionInfo lib sessionFile fs now1 now2)) \<longrightarrow>
        (\<exists>s. LoadSession lib sessionFile fs = Inr s \<and> IsSessionValid now1 (Some s)
           \<and> TimeRemaining (fst (GetSessionInfo lib sessionFile fs now1 now2))
               = Time_Until now2 (ExpiresAt s)))"
  by (auto simp: GetSessionInfo_def LoadSession_def Let_def split: sum.splits option.splits)

theorem GetSessionInfo_never_fails_witness:
  "GetSessionInfo example_json_lib ''session.json''
     (empty_fs\<lparr>files := (files empty_fs)(''session.json'' \<mapsto> ''not json'')\<rparr>) 10 11
   = (\<lparr>Exists = False, Valid = False, ExpiresAt_info = 0, TimeRemaining = 0,
       HasRefreshToken = False\<rparr>, None)"
  using GetSessionInfo_never_fails [of example_json_lib "''session.json''"
      "empty_fs\<lparr>files := (files empty_fs)(''session.json'' \<mapsto> ''not json'')\<rparr>" 10 11
      "''not json''" JNull]
  by (simp add: prod_eq_iff example_json_lib_def empty_fs_def)

section \<open>Verification: refresh-token flow\<close>

lemma refresh_exchange_doRequest:
  "refresh_exchange lib res =
     (case fst (doRequest lib c res (unmarshal_RefreshResponse lib)) of
        Inl e \<Rightarrow> None | Inr r \<Rightarrow> Some r)"
  by (auto simp: doRequest_def refresh_exchange_def Let_def split: http_result.splits option.splits)

lemma find_Some_holds: "find P xs = Some x \<Longrightarrow> P x"
  by (induction xs) (auto split: if_splits)

lemma saveResponseCookies_cases:
  "saveResponseCookies c resp = c \<or>
   (\<exists>s v. session c = Some s
      \<and> find (\<lambda>cookie. fst cookie = ''marble-cookie'') (Cookies resp) = Some (''marble-cookie'', v)
      \<and> saveResponseCookies c resp = c\<lparr>session := Some (s\<lparr>MarbleCookie := v\<rparr>)\<rparr>)"
proof (cases "find (\<lambda>cookie. fst cookie = ''marble-cookie'') (Cookies resp)")
  case None
  then show ?thesis
    by (simp add: saveResponseCookies_def split: option.splits)
next
  case (Some cookie)
  then have "fst cookie = ''marble-cookie''"
    by (rule find_Some_holds)
  then have "cookie = (''marble-cookie'', snd cookie)"
    by (simp add: prod_eq_iff)
  with Some show ?thesis
    by (cases "session c") (auto simp: saveResponseCookies_def)
qed

lemma doRequest_client:
  "snd (doRequest lib c res unmarshal) = c \<or>
   (\<exists>s resp v. session c = Some s \<and> res = Responded resp \<and> 200 \<le> StatusCode resp
      \<and> StatusCode resp < 300
      \<and> find (\<lambda>cookie. fst cookie = ''marble-cookie'') (Cookies resp) = Some (''marble-cookie'', v)
      \<and> snd (doRequest lib c res unmarshal) = c\<lparr>session := Some (s\<lparr>MarbleCookie := v\<rparr>)\<rparr>)"
proof (cases res)
  case (Responded resp)
  show ?thesis
  proof (cases "StatusCode resp < 200 \<or> StatusCode resp \<ge> 300")
    case True
    with Responded show ?thesis by (simp add: doRequest_def)
  next
    case False
    then have "snd (doRequest lib c res unmarshal) = saveResponseCookies c resp"
      using Responded by (simp add: doRequest_def Let_def split: option.splits)
    with False Responded saveResponseCookies_cases [of c resp] show ?thesis
      by auto
  qed
qed (simp_all add: doRequest_def)

lemma newRequest_ok:
  "\<not> NewRequest_fails lib m (baseURL c @ ep) \<Longrightarrow>
   \<exists>req. newRequest lib c rid m ep b = Inr req \<and> Method req = m \<and> URL req = baseURL c @ ep
     \<and> ReqBody req = b \<and> Header req ''X-Device-Hash'' = Some (deviceHash c)"
  by (auto simp: newRequest_def Let_def setAuthenticationHeaders_def setDeviceHeaders_def
     setStandardHeaders_def split: option.splits)

text \<open>
  C5. With a session that has a refresh token (and a URL that \<open>http.NewRequest\<close>
  accepts), RefreshSession sends exactly one request, a POST to the refresh endpoint
  whose body is the object with the single member \<open>refresh_token\<close> holding the
  session's refresh token, under the client's device hash. It succeeds exactly when the
  exchange succeeds with a 2xx status and a decodable body, the envelope's error is null
  and \<open>expires_at\<close> parses; then the session's access token, refresh token, token type
  and expiry are those of the response (the expiry the parsed instant). When
  \<open>expires_at\<close> does not parse the call fails with that error, and still only one
  request has been sent.
\<close>

theorem RefreshSession_spec:
  assumes s: "session c = Some s" and rt: "RefreshToken s \<noteq> []"
    and nr: "\<not> NewRequest_fails lib ''POST'' (refreshURL c)"
  shows "(\<exists>req. snd (snd (RefreshSession lib requestID res c)) = [req]
            \<and> Method req = ''POST'' \<and> URL req = refreshURL c
            \<and> ReqBody req = Some (JObject [(''refresh_token'', JString (RefreshToken s))])
            \<and> Header req ''X-Device-Hash'' = Some (deviceHash c))
    \<and> (fst (RefreshSession lib requestID res c) = None \<longleftrightarrow>
           (\<exists>r t. refresh_exchange lib res = Some r \<and> Error_rr r = None
                  \<and> time_Parse_RFC3339 lib (ExpiresAt_td (Data_rr r)) = Some t))
    \<and> (refresh_exchange lib res = Some r \<and> Error_rr r = None
           \<and> time_Parse_RFC3339 lib (ExpiresAt_td (Data_rr r)) = Some t \<longrightarrow>
         (\<exists>s'. session (fst (snd (RefreshSession lib requestID res c))) = Some s'
            \<and> AccessToken s' = AccessToken_td (Data_rr r)
            \<and> RefreshToken s' = RefreshToken_td (Data_rr r)
            \<and> TokenType s' = TokenType_td (Data_rr r)
            \<and> ExpiresAt s' = t \<and> DeviceHash s' = DeviceHash s))
    \<and> (refresh_exchange lib res = Some r \<and> Error_rr r = None
           \<and> time_Parse_RFC3339 lib (ExpiresAt_td (Data_rr r)) = None \<longrightarrow>
         fst (RefreshSession lib requestID res c)
           = Some (Wrapped ''failed to parse expires_at'' ParseExpiresAtFailed))"
proof -
  obtain req where req: "newRequest lib c requestID ''POST'' ''/api/v1/auth/tokens/refresh''
        (Some (marshal_RefreshRequest \<lparr>RefreshToken_rq = RefreshToken s\<rparr>)) = Inr req"
     and reqp: "Method req = ''POST''" "URL req = refreshURL c"
       "ReqBody req = Some (marshal_RefreshRequest \<lparr>RefreshToken_rq = RefreshToken s\<rparr>)"
       "Header req ''X-Device-Hash'' = Some (deviceHash c)"
    using newRequest_ok[of lib "''POST''" c "''/api/v1/auth/tokens/refresh''"] nr
    unfolding refreshURL_def by blast
  obtain x c' where d: "doRequest lib c res (unmarshal_RefreshResponse lib) = (x, c')"
    by (cases "doRequest lib c res (unmarshal_RefreshResponse lib)")
  have x: "refresh_exchange lib res = (case x of Inl e \<Rightarrow> None | Inr r \<Rightarrow> Some r)"
    using refresh_exchange_doRequest[of lib res c] d by simp
  have c': "session c' = Some s \<or> (\<exists>v. session c' = Some (s\<lparr>MarbleCookie := v\<rparr>))"
    using doRequest_client[of lib c res "unmarshal_RefreshResponse lib"] d s by auto
  have sent: "(\<exists>req. snd (snd (RefreshSession lib requestID res c)) = [req]
            \<and> Method req = ''POST'' \<and> URL req = refreshURL c
            \<and> ReqBody req = Some (JObject [(''refresh_token'', JString (RefreshToken s))])
            \<and> Header req ''X-Device-Hash'' = Some (deviceHash c))"
    using s rt req reqp d
    by (auto simp: RefreshSession_def Let_def marshal_RefreshRequest_def
        split: sum.splits option.splits)
  have iff: "fst (RefreshSession lib requestID res c) = None \<longleftrightarrow>
           (\<exists>r t. refresh_exchange lib res = Some r \<and> Error_rr r = None
                  \<and> time_Parse_RFC3339 lib (ExpiresAt_td (Data_rr r)) = Some t)"
    using s rt req d
    by (cases x) (auto simp: x RefreshSession_def Let_def split: option.splits)
  have upd: "refresh_exchange lib res = Some r \<and> Error_rr r = None
           \<and> time_Parse_RFC3339 lib (ExpiresAt_td (Data_rr r)) = Some t \<longrightarrow>
         (\<exists>s'. session (fst (snd (RefreshSession lib requestID res c))) = Some s'
            \<and> AccessToken s' = AccessToken_td (Data_rr r)
            \<and> RefreshToken s' = RefreshToken_td (Data_rr r)
            \<and> TokenType s' = TokenType_td (Data_rr r)
            \<and> ExpiresAt s' = t \<and> DeviceHash s' = DeviceHash s)"
    using s rt req d c'
    by (cases x) (auto simp: x RefreshSession_def Let_def split: option.splits)
  have parse: "refresh_exchange lib res = Some r \<and> Error_rr r = None
           \<and> time_Parse_RFC3339 lib (ExpiresAt_td (Data_rr r)) = None \<longrightarrow>
         fst (RefreshSession lib requestID res c)
           = Some (Wrapped ''failed to parse expires_at'' ParseExpiresAtFailed)"
    using s rt req d
    by (cases x) (auto simp: x RefreshSession_def Let_def split: option.splits)
  from sent iff upd parse show ?thesis
    by (intro conjI)
qed

theorem RefreshSession_spec_witness:
  "(\<exists>req. snd (snd (InitializeFromRefreshToken example_http_lib ''rid''
               (Responded \<lparr>StatusCode = 200, Cookies = [], Body = ''{ok}''\<rparr>) example_client ''abc'')) = [req]
          \<and> ReqBody req = Some (JObject [(''refresh_token'', JString ''abc'')])
          \<and> Header req ''X-Device-Hash'' = Some ''d1'')
   \<and> fst (InitializeFromRefreshToken example_http_lib ''rid''
               (Responded \<lparr>StatusCode = 200, Cookies = [], Body = ''{ok}''\<rparr>) example_client ''abc'') = None
   \<and> (\<exists>s'. session (fst (snd (InitializeFromRefreshToken example_http_lib ''rid''
               (Responded \<lparr>StatusCode = 200, Cookies = [], Body = ''{ok}''\<rparr>) example_client ''abc''))) = Some s'
          \<and> AccessToken s' = ''access1'' \<and> RefreshToken s' = ''refresh1''
          \<and> ExpiresAt s' = 60 * Minute \<and> IsSessionValid 0 (Some s'))"
proof -
  let ?c = "SetSession example_client (Some (InitializeSession ''abc'' (deviceHash example_client)))"
  let ?res = "Responded \<lparr>StatusCode = 200, Cookies = [], Body = ''{ok}''\<rparr>"
  let ?r = "\<lparr>Data_rr = \<lparr>TokenType_td = ''Bearer'',
              AccessToken_td = ''access1'', RefreshToken_td = ''refresh1'', ExpiresAt_td = ''T1''\<rparr>,
              Error_rr = None\<rparr>"
  have s: "session ?c = Some (InitializeSession ''abc'' ''d1'')"
    by (simp add: SetSession_def example_client_def)
  have rt: "RefreshToken (InitializeSession ''abc'' ''d1'') \<noteq> []"
    by (simp add: InitializeSession_def)
  have nr: "\<not> NewRequest_fails example_http_lib ''POST'' (refreshURL ?c)"
    by (simp add: example_http_lib_def)
  have ex: "refresh_exchange example_http_lib ?res = Some ?r"
    by (simp add: refresh_exchange_def example_http_lib_def)
  have tp: "time_Parse_RFC3339 example_http_lib (ExpiresAt_td (Data_rr ?r)) = Some (60 * Minute)"
    by (simp add: example_http_lib_def)
  have dh: "deviceHash ?c = ''d1''"
    by (simp add: SetSession_def example_client_def)
  note spec = RefreshSession_spec [OF s rt nr, of "''rid''" ?res ?r "60 * Minute"]
  from spec obtain req where req:
      "snd (snd (RefreshSession example_http_lib ''rid'' ?res ?c)) = [req]"
      "ReqBody req = Some (JObject [(''refresh_token'', JString ''abc'')])"
      "Header req ''X-Device-Hash'' = Some ''d1''"
    unfolding dh by (auto simp: InitializeSession_def)
  have e: "\<exists>r t. refresh_exchange example_http_lib ?res = Some r \<and> Error_rr r = None
      \<and> time_Parse_RFC3339 example_http_lib (ExpiresAt_td (Data_rr r)) = Some t"
    using ex tp by (intro exI [of _ ?r] exI [of _ "60 * Minute"]) simp
  have ok: "fst (RefreshSession example_http_lib ''rid'' ?res ?c) = None"
    by (rule iffD2 [OF spec [THEN conjunct2, THEN conjunct1] e])
  have p: "refresh_exchange example_http_lib ?res = Some ?r \<and> Error_rr ?r = None
      \<and> time_Parse_RFC3339 example_http_lib (ExpiresAt_td (Data_rr ?r)) = Some (60 * Minute)"
    using ex tp by simp
  from mp [OF spec [THEN conjunct2, THEN conjunct2, THEN conjunct1] p] obtain s' where s':
      "session (fst (snd (RefreshSession example_http_lib ''rid'' ?res ?c))) = Some s'"
      "AccessToken s' = ''access1''" "RefreshToken s' = ''refresh1''"
      "ExpiresAt s' = 60 * Minute"
    by auto
  have "IsSessionValid 0 (Some s')"
    using s' by (simp add: IsSessionValid_def Time_After_def Time_Add_def Minute_def)
  with req ok s' show ?thesis
    unfolding InitializeFromRefreshToken_def by simp
qed

text \<open>
  C8 (as amended). Every failure path of RefreshSession returns an error: no session or
  an empty refresh token (and likewise a request that cannot be created) returns at once,
  with the client untouched and nothing sent; a transport failure, an unreadable body and
  a non-2xx status return the wrapped error with the client untouched; a 2xx body that
  does not decode, an envelope with a non-null error and an \<open>expires_at\<close> that does
  not parse return their errors. Whenever the call fails, the client is as it was before
  the call, with one exception: when the server answered with a 2xx status and a
  \<open>marble-cookie\<close> cookie, doRequest has stored that cookie in the session before
  the body was decoded and checked, and the session's marble cookie is the new one. The
  access token, refresh token, token type, expiry and device hash are unchanged on every
  failure path.
\<close>

theorem RefreshSession_failure_keeps_tokens:
  "(session c = None \<longrightarrow>
      RefreshSession lib requestID res c = (Some NoRefreshToken, c, []))
   \<and> (session c = Some s \<and> RefreshToken s = [] \<longrightarrow>
      RefreshSession lib requestID res c = (Some NoRefreshToken, c, []))
   \<and> (session c = Some s \<and> RefreshToken s \<noteq> []
        \<and> NewRequest_fails lib ''POST'' (refreshURL c) \<longrightarrow>
      RefreshSession lib requestID res c
        = (Some (Wrapped ''failed to create refresh request''
                   (Wrapped ''failed to create HTTP request'' CreateRequestFailed)), c, []))
   \<and> (session c = Some s \<and> RefreshToken s \<noteq> []
        \<and> \<not> NewRequest_fails lib ''POST'' (refreshURL c) \<and> res = DoFailed \<longrightarrow>
      fst (RefreshSession lib requestID res c)
        = Some (Wrapped ''failed to refresh session''
                  (Wrapped ''HTTP request failed'' HTTPRequestFailed))
      \<and> fst (snd (RefreshSession lib requestID res c)) = c)
   \<and> (session c = Some s \<and> RefreshToken s \<noteq> []
        \<and> \<not> NewRequest_fails lib ''POST'' (refreshURL c) \<and> res = BodyFailed \<longrightarrow>
      fst (RefreshSession lib requestID res c)
        = Some (Wrapped ''failed to refresh session'' ReadBodyFailed)
      \<and> fst (snd (RefreshSession lib requestID res c)) = c)
   \<and> (session c = Some s \<and> RefreshToken s \<noteq> []
        \<and> \<not> NewRequest_fails lib ''POST'' (refreshURL c) \<and> res = Responded resp
        \<and> (StatusCode resp < 200 \<or> 300 \<le> StatusCode resp) \<longrightarrow>
      fst (RefreshSession lib requestID res c)
        = Some (Wrapped ''failed to refresh session''
                  (handleErrorResponse lib resp (Body resp)))
      \<and> fst (snd (RefreshSession lib requestID res c)) = c)
   \<and> (session c = Some s \<and> RefreshToken s \<noteq> []
        \<and> \<not> NewRequest_fails lib ''POST'' (refreshURL c) \<and> res = Responded resp
        \<and> 200 \<le> StatusCode resp \<and> StatusCode resp < 300
        \<and> unmarshal_RefreshResponse lib (Body resp) = None \<longrightarrow>
      fst (RefreshSession lib requestID res c)
        = Some (Wrapped ''failed to refresh session''
                  (Wrapped ''failed to decode response'' DecodeResponseFailed)))
   \<and> (session c = Some s \<and> RefreshToken s \<noteq> []
        \<and> \<not> NewRequest_fails lib ''POST'' (refreshURL c)
        \<and> refresh_exchange lib res = Some r \<and> Error_rr r = Some msg \<longrightarrow>
      fst (RefreshSession lib requestID res c) = Some (RefreshFailed msg))
   \<and> (session c = Some s \<and> RefreshToken s \<noteq> []
        \<and> \<not> NewRequest_fails lib ''POST'' (refreshURL c)
        \<and> refresh_exchange lib res = Some r \<and> Error_rr r = None
        \<and> time_Parse_RFC3339 lib (ExpiresAt_td (Data_rr r)) = None \<longrightarrow>
      fst (RefreshSession lib requestID res c)
        = Some (Wrapped ''failed to parse expires_at'' ParseExpiresAtFailed))
   \<and> (fst (RefreshSession lib requestID res c) = Some e \<longrightarrow>
      fst (snd (RefreshSession lib requestID res c)) = c \<or>
      (\<exists>s0 resp0 v. session c = Some s0 \<and> res = Responded resp0 \<and> 200 \<le> StatusCode resp0
         \<and> StatusCode resp0 < 300
         \<and> find (\<lambda>cookie. fst cookie = ''marble-cookie'') (Cookies resp0)
             = Some (''marble-cookie'', v)
         \<and> fst (snd (RefreshSession lib requestID res c))
             = c\<lparr>session := Some (s0\<lparr>MarbleCookie := v\<rparr>)\<rparr>))"
proof -
  have p1: "session c = None \<longrightarrow>
      RefreshSession lib requestID res c = (Some NoRefreshToken, c, [])"
    by (simp add: RefreshSession_def)
  have p2: "session c = Some s \<and> RefreshToken s = [] \<longrightarrow>
      RefreshSession lib requestID res c = (Some NoRefreshToken, c, [])"
    by (simp add: RefreshSession_def)
  have p3: "session c = Some s \<and> RefreshToken s \<noteq> []
        \<and> NewRequest_fails lib ''POST'' (refreshURL c) \<longrightarrow>
      RefreshSession lib requestID res c
        = (Some (Wrapped ''failed to create refresh request''
                   (Wrapped ''failed to create HTTP request'' CreateRequestFailed)), c, [])"
    by (simp add: RefreshSession_def newRequest_def refreshURL_def Let_def)
  have sent: "fst (RefreshSession lib requestID res c)
        = (case doRequest lib c res (unmarshal_RefreshResponse lib) of
             (Inl err, c') \<Rightarrow> Some (Wrapped ''failed to refresh session'' err)
           | (Inr response, c') \<Rightarrow>
               (case Error_rr response of
                  Some e \<Rightarrow> Some (RefreshFailed e)
                | None \<Rightarrow>
                    (case time_Parse_RFC3339 lib (ExpiresAt_td (Data_rr response)) of
                       None \<Rightarrow> Some (Wrapped ''failed to parse expires_at'' ParseExpiresAtFailed)
                     | Some expiresAt \<Rightarrow> None)))"
    and kept: "fst (doRequest lib c res (unmarshal_RefreshResponse lib)) = Inl err \<longrightarrow>
        fst (snd (RefreshSession lib requestID res c))
          = snd (doRequest lib c res (unmarshal_RefreshResponse lib))"
    if pre: "session c = Some s" "RefreshToken s \<noteq> []"
      "\<not> NewRequest_fails lib ''POST'' (refreshURL c)" for err
  proof -
    obtain req where req: "newRequest lib c requestID ''POST'' ''/api/v1/auth/tokens/refresh''
        (Some (marshal_RefreshRequest \<lparr>RefreshToken_rq = RefreshToken s\<rparr>)) = Inr req"
      using newRequest_ok [of lib "''POST''" c "''/api/v1/auth/tokens/refresh''"] pre(3)
      unfolding refreshURL_def by blast
    obtain x c' where d: "doRequest lib c res (unmarshal_RefreshResponse lib) = (x, c')"
      by (cases "doRequest lib c res (unmarshal_RefreshResponse lib)")
    show "fst (RefreshSession lib requestID res c)
        = (case doRequest lib c res (unmarshal_RefreshResponse lib) of
             (Inl err, c') \<Rightarrow> Some (Wrapped ''failed to refresh session'' err)
           | (Inr response, c') \<Rightarrow>
               (case Error_rr response of
                  Some e \<Rightarrow> Some (RefreshFailed e)
                | None \<Rightarrow>
                    (case time_Parse_RFC3339 lib (ExpiresAt_td (Data_rr response)) of
                       None \<Rightarrow> Some (Wrapped ''failed to parse expires_at'' ParseExpiresAtFailed)
                     | Some expiresAt \<Rightarrow> None)))"
      using pre(1,2) req d
      by (cases x) (auto simp: RefreshSession_def Let_def split: option.splits)
    show "fst (doRequest lib c res (unmarshal_RefreshResponse lib)) = Inl err \<longrightarrow>
        fst (snd (RefreshSession lib requestID res c))
          = snd (doRequest lib c res (unmarshal_RefreshResponse lib))"
      using pre(1,2) req d
      by (cases x) (auto simp: RefreshSession_def Let_def split: option.splits)
  qed
  have p4: "session c = Some s \<and> RefreshToken s \<noteq> []
        \<and> \<not> NewRequest_fails lib ''POST'' (refreshURL c) \<and> res = DoFailed \<longrightarrow>
      fst (RefreshSession lib requestID res c)
        = Some (Wrapped ''failed to refresh session''
                  (Wrapped ''HTTP request failed'' HTTPRequestFailed))
      \<and> fst (snd (RefreshSession lib requestID res c)) = c"
    using sent kept [of "Wrapped ''HTTP request failed'' HTTPRequestFailed"]
    by (auto simp: doRequest_def)
  have p5: "session c = Some s \<and> RefreshToken s \<noteq> []
        \<and> \<not> NewRequest_fails lib ''POST'' (refreshURL c) \<and> res = BodyFailed \<longrightarrow>
      fst (RefreshSession lib requestID res c)
        = Some (Wrapped ''failed to refresh session'' ReadBodyFailed)
      \<and> fst (snd (RefreshSession lib requestID res c)) = c"
    using sent kept [of ReadBodyFailed]
    by (auto simp: doRequest_def)
  have p6: "session c = Some s \<and> RefreshToken s \<noteq> []
        \<and> \<not> NewRequest_fails lib ''POST'' (refreshURL c) \<and> res = Responded resp
        \<and> (StatusCode resp < 200 \<or> 300 \<le> StatusCode resp) \<longrightarrow>
      fst (RefreshSession lib requestID res c)
        = Some (Wrapped ''failed to refresh session''
                  (handleErrorResponse lib resp (Body resp)))
      \<and> fst (snd (RefreshSession lib requestID res c)) = c"
    using sent kept [of "handleErrorResponse lib resp (Body resp)"]
    by (auto simp: doRequest_def)
  have p7: "session c = Some s \<and> RefreshToken s \<noteq> []
        \<and> \<not> NewRequest_fails lib ''POST'' (refreshURL c) \<and> res = Responded resp
        \<and> 200 \<le> StatusCode resp \<and> StatusCode resp < 300
        \<and> unmarshal_RefreshResponse lib (Body resp) = None \<longrightarrow>
      fst (RefreshSession lib requestID res c)
        = Some (Wrapped ''failed to refresh session''
                  (Wrapped ''failed to decode response'' DecodeResponseFailed))"
    using sent by (auto simp: doRequest_def Let_def)
  have ex: "fst (doRequest lib c res (unmarshal_RefreshResponse lib)) = Inr r"
    if "refresh_exchange lib res = Some r"
    using that refresh_exchange_doRequest [of lib res c]
    by (cases "fst (doRequest lib c res (unmarshal_RefreshResponse lib))") simp_all
  have p8: "session c = Some s \<and> RefreshToken s \<noteq> []
        \<and> \<not> NewRequest_fails lib ''POST'' (refreshURL c)
        \<and> refresh_exchange lib res = Some r \<and> Error_rr r = Some msg \<longrightarrow>
      fst (RefreshSession lib requestID res c) = Some (RefreshFailed msg)"
    using sent ex by (auto simp: case_prod_beta)
  have p9: "session c = Some s \<and> RefreshToken s \<noteq> []
        \<and> \<not> NewRequest_fails lib ''POST'' (refreshURL c)
        \<and> refresh_exchange lib res = Some r \<and> Error_rr r = None
        \<and> time_Parse_RFC3339 lib (ExpiresAt_td (Data_rr r)) = None \<longrightarrow>
      fst (RefreshSession lib requestID res c)
        = Some (Wrapped ''failed to parse expires_at'' ParseExpiresAtFailed)"
    using sent ex by (auto simp: case_prod_beta)
  have p10: "fst (RefreshSession lib requestID res c) = Some e \<longrightarrow>
      fst (snd (RefreshSession lib requestID res c)) = c \<or>
      (\<exists>s0 resp0 v. session c = Some s0 \<and> res = Responded resp0 \<and> 200 \<le> StatusCode resp0
         \<and> StatusCode resp0 < 300
         \<and> find (\<lambda>cookie. fst cookie = ''marble-cookie'') (Cookies resp0)
             = Some (''marble-cookie'', v)
         \<and> fst (snd (RefreshSession lib requestID res c))
             = c\<lparr>session := Some (s0\<lparr>MarbleCookie := v\<rparr>)\<rparr>)"
  proof
    assume fail: "fst (RefreshSession lib requestID res c) = Some e"
    obtain x c' where d: "doRequest lib c res (unmarshal_RefreshResponse lib) = (x, c')"
      by (cases "doRequest lib c res (unmarshal_RefreshResponse lib)")
    have "fst (snd (RefreshSession lib requestID res c)) = c
          \<or> fst (snd (RefreshSession lib requestID res c)) = c'"
      using fail d
      by (auto simp: RefreshSession_def Let_def split: option.splits sum.splits if_splits)
    then show "fst (snd (RefreshSession lib requestID res c)) = c \<or>
      (\<exists>s0 resp0 v. session c = Some s0 \<and> res = Responded resp0 \<and> 200 \<le> StatusCode resp0
         \<and> StatusCode resp0 < 300
         \<and> find (\<lambda>cookie. fst cookie = ''marble-cookie'') (Cookies resp0)
             = Some (''marble-cookie'', v)
         \<and> fst (snd (RefreshSession lib requestID res c))
             = c\<lparr>session := Some (s0\<lparr>MarbleCookie := v\<rparr>)\<rparr>)"
      using doRequest_client [of lib c res "unmarshal_RefreshResponse lib"] d by auto
  qed
  from p1 p2 p3 p4 p5 p6 p7 p8 p9 p10 show ?thesis
    by (intro conjI)
qed


theorem RefreshSession_failure_keeps_tokens_witness:
  "RefreshSession example_http_lib ''rid'' DoFailed example_client
     = (Some NoRefreshToken, example_client, [])
   \<and> fst (RefreshSession example_http_lib ''rid''
        (Responded \<lparr>StatusCode = 500, Cookies = [(''marble-cookie'', ''new'')], Body = ''bad gateway''\<rparr>)
        (example_client\<lparr>session := Some example_session\<rparr>))
     = Some (Wrapped ''failed to refresh session''
         (handleErrorResponse example_http_lib
            \<lparr>StatusCode = 500, Cookies = [(''marble-cookie'', ''new'')], Body = ''bad gateway''\<rparr>
            ''bad gateway''))
   \<and> fst (snd (RefreshSession example_http_lib ''rid''
        (Responded \<lparr>StatusCode = 500, Cookies = [(''marble-cookie'', ''new'')], Body = ''bad gateway''\<rparr>)
        (example_client\<lparr>session := Some example_session\<rparr>)))
     = example_client\<lparr>session := Some example_session\<rparr>"
proof -
  let ?resp = "\<lparr>StatusCode = 500, Cookies = [(''marble-cookie'', ''new'')], Body = ''bad gateway''\<rparr>"
  let ?r = "\<lparr>Data_rr = \<lparr>TokenType_td = [], AccessToken_td = [], RefreshToken_td = [],
             ExpiresAt_td = []\<rparr>, Error_rr = None\<rparr>"
  have 1: "RefreshSession example_http_lib ''rid'' DoFailed example_client
     = (Some NoRefreshToken, example_client, [])"
    using RefreshSession_failure_keeps_tokens [where c = example_client and lib = example_http_lib
        and requestID = "''rid''" and res = DoFailed and s = example_session and resp = ?resp
        and r = ?r and msg = "[]" and e = NoRefreshToken]
    by (simp add: example_client_def)
  have 2: "fst (RefreshSession example_http_lib ''rid'' (Responded ?resp)
        (example_client\<lparr>session := Some example_session\<rparr>))
     = Some (Wrapped ''failed to refresh session''
         (handleErrorResponse example_http_lib ?resp ''bad gateway''))
   \<and> fst (snd (RefreshSession example_http_lib ''rid'' (Responded ?resp)
        (example_client\<lparr>session := Some example_session\<rparr>)))
     = example_client\<lparr>session := Some example_session\<rparr>"
    using RefreshSession_failure_keeps_tokens [where c = "example_client\<lparr>session := Some example_session\<rparr>"
        and lib = example_http_lib
        and requestID = "''rid''" and res = "Responded ?resp" and s = example_session
        and resp = ?resp and r = ?r and msg = "[]" and e = NoRefreshToken]
    by (simp add: example_session_def example_http_lib_def)
  from 1 2 show ?thesis
    by blast
qed

text \<open>
  C8 as stated (every field of the session unchanged on every failure path) fails on a 200
  response that carries a marble-cookie and an envelope with a non-null error: the call
  returns the error and the session's marble cookie has changed.
\<close>

theorem RefreshSession_failure_changes_cookie_counterexample:
  "fst (RefreshSession example_http_lib ''rid''
        (Responded \<lparr>StatusCode = 200, Cookies = [(''marble-cookie'', ''new'')], Body = ''{err}''\<rparr>)
        (example_client\<lparr>session := Some example_session\<rparr>))
     = Some (RefreshFailed ''invalid refresh token'')
   \<and> session (fst (snd (RefreshSession example_http_lib ''rid''
        (Responded \<lparr>StatusCode = 200, Cookies = [(''marble-cookie'', ''new'')], Body = ''{err}''\<rparr>)
        (example_client\<lparr>session := Some example_session\<rparr>))))
     = Some (example_session\<lparr>MarbleCookie := ''new''\<rparr>)
   \<and> example_session\<lparr>MarbleCookie := ''new''\<rparr> \<noteq> example_session"
  by (simp add: RefreshSession_def example_client_def example_session_def example_http_lib_def
        newRequest_def doRequest_def saveResponseCookies_def Let_def)

section \<open>Verification: transaction query parameters\<close>

lemma map_of_Values_update: "map_of (Values_update k vs ps) = (map_of ps)(k \<mapsto> vs)"
  by (induction ps) auto

lemma keys_Values_update: "fst ` set (Values_update k vs ps) = insert k (fst ` set ps)"
  by (simp add: dom_map_of_conv_image_fst [symmetric] map_of_Values_update)

lemma distinct_Values_update: "distinct (map fst ps) \<Longrightarrow> distinct (map fst (Values_update k vs ps))"
  by (induction ps) (auto simp: keys_Values_update)

lemma map_of_applyIf_Set:
  "map_of (applyIf b (Values_Set k v) ps) k' = (if b \<and> k' = k then Some [v] else map_of ps k')"
  by (simp add: applyIf_def Values_Set_def map_of_Values_update)

lemma map_of_applyIf_Add:
  "map_of (applyIf b (Values_Add k v) ps) k' =
     (if b \<and> k' = k then Some (Values_Get ps k @ [v]) else map_of ps k')"
  by (simp add: applyIf_def Values_Add_def map_of_Values_update)

lemma map_of_applyIf_Add2:
  "map_of (applyIf b (\<lambda>ps. Values_Add k v (Values_Add k w ps)) ps) k' =
     (if b \<and> k' = k then Some (Values_Get ps k @ [w, v]) else map_of ps k')"
  by (simp add: applyIf_def Values_Add_def map_of_Values_update Values_Get_def)

lemmas lookups = map_of_applyIf_Set map_of_applyIf_Add map_of_applyIf_Add2 Values_Get_def


lemma decimal_not_Nil: "decimal n \<noteq> []"
  by (subst decimal.simps) simp

lemma Sprintf_d_not_Nil: "Sprintf_d n \<noteq> []"
  by (simp add: Sprintf_d_def decimal_not_Nil)

lemma params_other_key:
  "k \<notin> query_keys \<Longrightarrow> map_of (buildTransactionQueryParams lib f) k = None"
  by (simp add: buildTransactionQueryParams_def Let_def lookups query_keys_def)

lemma params_keys: "fst ` set (buildTransactionQueryParams lib f) \<subseteq> query_keys"
proof
  fix k assume "k \<in> fst ` set (buildTransactionQueryParams lib f)"
  then have "map_of (buildTransactionQueryParams lib f) k \<noteq> None"
    by (simp add: dom_map_of_conv_image_fst [symmetric] domIff)
  then show "k \<in> query_keys"
    by (rule contrapos_np) (rule params_other_key)
qed

lemma params_no_filters: "no_filters f \<Longrightarrow> buildTransactionQueryParams lib f = []"
  by (simp add: no_filters_def buildTransactionQueryParams_def Let_def applyIf_def)

lemma params_values_not_Nil:
  "map_of (buildTransactionQueryParams lib f) k = Some vs \<Longrightarrow> vs \<noteq> []"
  by (auto simp: buildTransactionQueryParams_def Let_def lookups split: if_splits)

lemma FetchTransactionsWithFilters_request:
  assumes "session c = Some s"
    and "\<not> NewRequest_fails lib ''GET''
           (baseURL c @ transactionsEndpoint lib userID (buildTransactionQueryParams lib f))"
  shows "\<exists>req. snd (snd (FetchTransactionsWithFilters lib unmarshal requestID res c userID f)) = [req]
           \<and> Method req = ''GET'' \<and> ReqBody req = None
           \<and> URL req = baseURL c @ transactionsEndpoint lib userID (buildTransactionQueryParams lib f)"
proof -
  obtain req where req: "newRequest lib c requestID ''GET''
        (transactionsEndpoint lib userID (buildTransactionQueryParams lib f)) None = Inr req"
      "Method req = ''GET''" "ReqBody req = None"
      "URL req = baseURL c @ transactionsEndpoint lib userID (buildTransactionQueryParams lib f)"
    using newRequest_ok [OF assms(2), of requestID None] by blast
  obtain x c' where d: "doRequest lib c res unmarshal = (x, c')"
    by (cases "doRequest lib c res unmarshal")
  show ?thesis
    using assms(1) req d
    by (cases x) (auto simp: FetchTransactionsWithFilters_def Let_def split: option.splits)
qed

text \<open>
  C6. The query parameters are exactly these: each key is present if and only if its
  filter field is set (a non-empty string, a non-zero time, a true flag, a positive
  limit), with the field's value; \<open>include[]\<close> collects the include string and the
  names of the two include flags that are set, in that order; \<open>or[]\<close> carries the two
  names when OrCategory is set. No other key occurs and no key has an empty list of
  values, so an unset field is absent rather than sent empty, and a limit of zero or
  below is never sent. With no filter set at all the parameters are empty, the endpoint
  has no query string, and that is the URL FetchTransactionsWithFilters requests.
\<close>

theorem buildTransactionQueryParams_spec:
  "(let ps = buildTransactionQueryParams lib f in
      map_of ps ''limit'' = (if Limit f > 0 then Some [Sprintf_d (Limit f)] else None)
    \<and> Sprintf_d (Limit f) \<noteq> []
    \<and> map_of ps ''after'' = (if After f \<noteq> [] then Some [After f] else None)
    \<and> map_of ps ''count_by'' = (if CountBy f \<noteq> [] then Some [CountBy f] else None)
    \<and> map_of ps ''time_filter'' = (if TimeFilter f \<noteq> [] then Some [TimeFilter f] else None)
    \<and> map_of ps ''sort_by'' = (if SortBy f \<noteq> [] then Some [SortBy f] else None)
    \<and> map_of ps ''sort_order'' = (if SortOrder f \<noteq> [] then Some [SortOrder f] else None)
    \<and> map_of ps ''start_date'' =
         (if \<not> Time_IsZero (StartDate f) then Some [time_Format_RFC3339 lib (StartDate f)] else None)
    \<and> map_of ps ''end_date'' =
         (if \<not> Time_IsZero (EndDate f) then Some [time_Format_RFC3339 lib (EndDate f)] else None)
    \<and> map_of ps ''category_id'' = (if CategoryID f \<noteq> [] then Some [CategoryID f] else None)
    \<and> map_of ps ''account_id[]'' = (if AccountID f \<noteq> [] then Some [AccountID f] else None)
    \<and> map_of ps ''subcategory_id'' =
         (if SubcategoryID f \<noteq> [] then Some [SubcategoryID f] else None)
    \<and> map_of ps ''include[]'' =
         (let vs = (if Include f \<noteq> [] then [Include f] else [])
                   @ (if IncludeCountBy f then [''count_by_totals''] else [])
                   @ (if IncludeDetailed f then [''detailed_search_summary''] else [])
          in if vs = [] then None else Some vs)
    \<and> map_of ps ''or[]'' =
         (if OrCategory f then Some [''subcategory_id'', ''category_id''] else None)
    \<and> fst ` set ps \<subseteq> query_keys
    \<and> (\<forall>k vs. map_of ps k = Some vs \<longrightarrow> vs \<noteq> [])
    \<and> (no_filters f \<longrightarrow> ps = []
         \<and> transactionsEndpoint lib userID ps = ''/api/v3/users/'' @ userID @ ''/transactions'')
    \<and> (no_filters f \<and> session c = Some s
         \<and> \<not> NewRequest_fails lib ''GET'' (baseURL c @ ''/api/v3/users/'' @ userID @ ''/transactions'')
         \<longrightarrow> (\<exists>req. snd (snd (FetchTransactionsWithFilters lib unmarshal requestID res c userID f)) = [req]
                \<and> URL req = baseURL c @ ''/api/v3/users/'' @ userID @ ''/transactions'')))"
proof -
  have 1: "map_of (buildTransactionQueryParams lib f) ''limit'' =
      (if Limit f > 0 then Some [Sprintf_d (Limit f)] else None)"
    by (simp add: buildTransactionQueryParams_def Let_def lookups)
  have 2: "map_of (buildTransactionQueryParams lib f) ''after'' =
      (if After f \<noteq> [] then Some [After f] else None)"
    by (simp add: buildTransactionQueryParams_def Let_def lookups)
  have 3: "map_of (buildTransactionQueryParams lib f) ''count_by'' =
      (if CountBy f \<noteq> [] then Some [CountBy f] else None)"
    by (simp add: buildTransactionQueryParams_def Let_def lookups)
  have 4: "map_of (buildTransactionQueryParams lib f) ''time_filter'' =
      (if TimeFilter f \<noteq> [] then Some [TimeFilter f] else None)"
    by (simp add: buildTransactionQueryParams_def Let_def lookups)
  have 5: "map_of (buildTransactionQueryParams lib f) ''sort_by'' =
      (if SortBy f \<noteq> [] then Some [SortBy f] else None)"
    by (simp add: buildTransactionQueryParams_def Let_def lookups)
  have 6: "map_of (buildTransactionQueryParams lib f) ''sort_order'' =
      (if SortOrder f \<noteq> [] then Some [SortOrder f] else None)"
    by (simp add: buildTransactionQueryParams_def Let_def lookups)
  have 7: "map_of (buildTransactionQueryParams lib f) ''start_date'' =
      (if \<not> Time_IsZero (StartDate f) then Some [time_Format_RFC3339 lib (StartDate f)] else None)"
    by (simp add: buildTransactionQueryParams_def Let_def lookups)
  have 8: "map_of (buildTransactionQueryParams lib f) ''end_date'' =
      (if \<not> Time_IsZero (EndDate f) then Some [time_Format_RFC3339 lib (EndDate f)] else None)"
    by (simp add: buildTransactionQueryParams_def Let_def lookups)
  have 9: "map_of (buildTransactionQueryParams lib f) ''category_id'' =
      (if CategoryID f \<noteq> [] then Some [CategoryID f] else None)"
    by (simp add: buildTransactionQueryParams_def Let_def lookups)
  have 10: "map_of (buildTransactionQueryParams lib f) ''account_id[]'' =
      (if AccountID f \<noteq> [] then Some [AccountID f] else None)"
    by (simp add: buildTransactionQueryParams_def Let_def lookups)
  have 11: "map_of (buildTransactionQueryParams lib f) ''subcategory_id'' =
      (if SubcategoryID f \<noteq> [] then Some [SubcategoryID f] else None)"
    by (simp add: buildTransactionQueryParams_def Let_def lookups)
  have 12: "map_of (buildTransactionQueryParams lib f) ''include[]'' =
      (let vs = (if Include f \<noteq> [] then [Include f] else [])
                @ (if IncludeCountBy f then [''count_by_totals''] else [])
                @ (if IncludeDetailed f then [''detailed_search_summary''] else [])
       in if vs = [] then None else Some vs)"
    by (simp add: buildTransactionQueryParams_def Let_def lookups)
  have 13: "map_of (buildTransactionQueryParams lib f) ''or[]'' =
      (if OrCategory f then Some [''subcategory_id'', ''category_id''] else None)"
    by (simp add: buildTransactionQueryParams_def Let_def lookups)
  have 14: "\<forall>k vs. map_of (buildTransactionQueryParams lib f) k = Some vs \<longrightarrow> vs \<noteq> []"
    using params_values_not_Nil [of lib f] by auto
  have 15: "no_filters f \<longrightarrow> buildTransactionQueryParams lib f = []
      \<and> transactionsEndpoint lib userID (buildTransactionQueryParams lib f)
          = ''/api/v3/users/'' @ userID @ ''/transactions''"
    by (simp add: params_no_filters transactionsEndpoint_def)
  have 16: "no_filters f \<and> session c = Some s
         \<and> \<not> NewRequest_fails lib ''GET'' (baseURL c @ ''/api/v3/users/'' @ userID @ ''/transactions'')
         \<longrightarrow> (\<exists>req. snd (snd (FetchTransactionsWithFilters lib unmarshal requestID res c userID f)) = [req]
                \<and> URL req = baseURL c @ ''/api/v3/users/'' @ userID @ ''/transactions'')"
  proof (intro impI, elim conjE)
    assume nf: "no_filters f" and s: "session c = Some s"
      and nr: "\<not> NewRequest_fails lib ''GET'' (baseURL c @ ''/api/v3/users/'' @ userID @ ''/transactions'')"
    from nf have ep: "transactionsEndpoint lib userID (buildTransactionQueryParams lib f)
        = ''/api/v3/users/'' @ userID @ ''/transactions''"
      by (simp add: params_no_filters transactionsEndpoint_def)
    from FetchTransactionsWithFilters_request [of c s lib userID f unmarshal requestID res] s nr
    show "\<exists>req. snd (snd (FetchTransactionsWithFilters lib unmarshal requestID res c userID f)) = [req]
                \<and> URL req = baseURL c @ ''/api/v3/users/'' @ userID @ ''/transactions''"
      unfolding ep by auto
  qed
  show ?thesis
    unfolding Let_def
    using 1 2 3 4 5 6 7 8 9 10 11 12 13 14 15 16 params_keys [of lib f]
      Sprintf_d_not_Nil [of "Limit f"]
    unfolding Let_def by (intro conjI)
qed

theorem buildTransactionQueryParams_spec_witness:
  "buildTransactionQueryParams example_http_lib zeroFilters = []
   \<and> transactionsEndpoint example_http_lib ''u1'' (buildTransactionQueryParams example_http_lib zeroFilters)
       = ''/api/v3/users/u1/transactions''
   \<and> map_of (buildTransactionQueryParams example_http_lib (zeroFilters\<lparr>Limit := -1\<rparr>)) ''limit'' = None
   \<and> map_of (buildTransactionQueryParams example_http_lib (zeroFilters\<lparr>After := ''cur'', IncludeCountBy := True\<rparr>))
         ''after'' = Some [''cur'']
   \<and> map_of (buildTransactionQueryParams example_http_lib (zeroFilters\<lparr>After := ''cur'', IncludeCountBy := True\<rparr>))
         ''include[]'' = Some [''count_by_totals'']"
proof -
  let ?u = "\<lambda>b. (None :: (unit, unit) TransactionsV3Response option)"
  have nf: "no_filters zeroFilters"
    by (simp add: no_filters_def zeroFilters_def Time_IsZero_def)
  have 1: "buildTransactionQueryParams example_http_lib zeroFilters = []
     \<and> transactionsEndpoint example_http_lib ''u1''
           (buildTransactionQueryParams example_http_lib zeroFilters)
         = ''/api/v3/users/u1/transactions''"
    using buildTransactionQueryParams_spec [of example_http_lib zeroFilters "''u1''"
        example_client example_session ?u "[]" DoFailed] nf
    by (auto simp add: Let_def)
  have 2: "map_of (buildTransactionQueryParams example_http_lib (zeroFilters\<lparr>Limit := -1\<rparr>))
        ''limit'' = None
     \<and> map_of (buildTransactionQueryParams example_http_lib
        (zeroFilters\<lparr>After := ''cur'', IncludeCountBy := True\<rparr>)) ''after'' = Some [''cur'']
     \<and> map_of (buildTransactionQueryParams example_http_lib
        (zeroFilters\<lparr>After := ''cur'', IncludeCountBy := True\<rparr>)) ''include[]''
      = Some [''count_by_totals'']"
    using buildTransactionQueryParams_spec [of example_http_lib "zeroFilters\<lparr>Limit := -1\<rparr>"
        "''u1''" example_client example_session ?u "[]" DoFailed]
      buildTransactionQueryParams_spec [of example_http_lib
        "zeroFilters\<lparr>After := ''cur'', IncludeCountBy := True\<rparr>"
        "''u1''" example_client example_session ?u "[]" DoFailed]
    by (simp add: Let_def zeroFilters_def)
  from 1 2 show ?thesis
    by (intro conjI) (erule conjunct1 conjunct2 | erule conjunct2 [THEN conjunct1]
        | erule conjunct2 [THEN conjunct2])+
qed

section \<open>Verification: OTP login flow\<close>

lemma example_code_trimmed: "TrimSpace ''123456 '' = ''123456''"
  by code_simp

lemma runOTPLogin_unfold:
  "runOTPLogin api env c0 =
     (let c = SetLogging c0 True in
      case (if phone env = []
            then (case stdin_phone env of
                    None \<Rightarrow> Inl (Wrapped ''failed to read phone number'' ReadInputFailed)
                  | Some phoneInput \<Rightarrow> Inr (TrimSpace phoneInput))
            else Inr (phone env)) of
        Inl e \<Rightarrow> \<lparr>err = Some e, client_after = c, calls = []\<rparr>
      | Inr ph \<Rightarrow>
          if ph = [] then \<lparr>err = Some PhoneNumberRequired, client_after = c, calls = []\<rparr>
          else otp_exchange api env c ph)"
  by (simp only: runOTPLogin_def otp_exchange_def otp_verify_step_def Let_def)


lemma otp_verify_step_ok:
  assumes "preserves_deviceHash api" and "deviceHash c = new_deviceHash env"
  shows "deviceHash (client_after (otp_verify_step api env c orig ph call1 code)) = orig
     \<and> calls (otp_verify_step api env c orig ph call1 code)
         = [call1, VerifyOTP_call ph code (new_requestID env) (new_deviceHash env)]"
proof -
  obtain x c' where v: "VerifyOTP api c ph code (new_requestID env) = (x, c')"
    by (cases "VerifyOTP api c ph code (new_requestID env)")
  show ?thesis
    using assms(2) v
    by (cases x)
       (auto simp: otp_verify_step_def Let_def SetDeviceHash_def split: option.splits)
qed

lemma otp_exchange_ok:
  assumes p: "preserves_deviceHash api"
  shows "deviceHash (client_after (otp_exchange api env c ph)) = deviceHash c
     \<and> (calls (otp_exchange api env c ph)
           = [RequestOTP_call ph ''sms'' (new_requestID env) (new_deviceHash env)]
         \<or> (\<exists>code. calls (otp_exchange api env c ph)
           = [RequestOTP_call ph ''sms'' (new_requestID env) (new_deviceHash env),
              VerifyOTP_call ph code (new_requestID env) (new_deviceHash env)]))"
proof -
  let ?c = "SetDeviceHash c (new_deviceHash env)"
  obtain x c' where r: "RequestOTP api ?c ph ''sms'' (new_requestID env) = (x, c')"
    by (cases "RequestOTP api ?c ph ''sms'' (new_requestID env)")
  from p have "deviceHash (snd (RequestOTP api ?c ph ''sms'' (new_requestID env))) = deviceHash ?c"
    unfolding preserves_deviceHash_def by blast
  with r have dh: "deviceHash c' = new_deviceHash env"
    by (simp add: SetDeviceHash_def)
  note v = otp_verify_step_ok [OF p dh, of "deviceHash c" ph
      "RequestOTP_call ph ''sms'' (new_requestID env) (new_deviceHash env)"]
  show ?thesis
  proof (cases x)
    case (Some e)
    with r show ?thesis
      by (simp add: otp_exchange_def Let_def SetDeviceHash_def GetDeviceHash_def)
  next
    case None
    show ?thesis
    proof (cases "if otp env = []
                    then (case stdin_otp env of
                            None \<Rightarrow> Inl (Wrapped ''failed to read OTP'' ReadInputFailed)
                          | Some otpInput \<Rightarrow> Inr (TrimSpace otpInput))
                    else Inr (otp env)")
      case (Inl e)
      with r None show ?thesis
        by (simp add: otp_exchange_def Let_def SetDeviceHash_def GetDeviceHash_def)
    next
      case (Inr code)
      with r None v [of code] show ?thesis
        by (simp add: otp_exchange_def Let_def SetDeviceHash_def GetDeviceHash_def)
    qed
  qed
qed

text \<open>
  C4. Whatever the flow reads and however it ends, provided RequestOTP and VerifyOTP do
  not themselves change the client's device hash: the client's device hash after
  runOTPLogin is the one it had before, and the calls made are none, or the request call
  alone, or the request call followed by the verify call, where both calls carry the
  request identifier and the device hash generated for this invocation (and the same
  phone number).
\<close>

theorem runOTPLogin_device_identity:
  assumes "preserves_deviceHash api"
  shows "deviceHash (client_after (runOTPLogin api env c)) = deviceHash c
    \<and> (calls (runOTPLogin api env c) = []
       \<or> (\<exists>p. calls (runOTPLogin api env c)
              = [RequestOTP_call p ''sms'' (new_requestID env) (new_deviceHash env)])
       \<or> (\<exists>p code. calls (runOTPLogin api env c)
              = [RequestOTP_call p ''sms'' (new_requestID env) (new_deviceHash env),
                 VerifyOTP_call p code (new_requestID env) (new_deviceHash env)]))"
proof (cases "if phone env = []
            then (case stdin_phone env of
                    None \<Rightarrow> Inl (Wrapped ''failed to read phone number'' ReadInputFailed)
                  | Some phoneInput \<Rightarrow> Inr (TrimSpace phoneInput))
            else Inr (phone env)")
  case (Inl e)
  then show ?thesis
    by (simp add: runOTPLogin_unfold Let_def SetLogging_def)
next
  case (Inr ph)
  show ?thesis
  proof (cases "ph = []")
    case True
    with Inr show ?thesis
      by (simp add: runOTPLogin_unfold Let_def SetLogging_def)
  next
    case False
    have run: "runOTPLogin api env c = otp_exchange api env (SetLogging c True) ph"
      using Inr False by (simp add: runOTPLogin_unfold Let_def)
    from otp_exchange_ok [OF assms, of env "SetLogging c True" ph] show ?thesis
      unfolding run by (auto simp: SetLogging_def)
  qed
qed

theorem runOTPLogin_device_identity_witness:
  "deviceHash (client_after (runOTPLogin example_otp_api example_login_env example_client)) = ''d1''
   \<and> calls (runOTPLogin example_otp_api example_login_env example_client)
       = [RequestOTP_call ''+15550100'' ''sms'' ''req-1'' ''dev-otp'',
          VerifyOTP_call ''+15550100'' ''123456'' ''req-1'' ''dev-otp'']"
proof -
  have p: "preserves_deviceHash example_otp_api"
    by (simp add: preserves_deviceHash_def example_otp_api_def)
  have c: "calls (runOTPLogin example_otp_api example_login_env example_client)
       = [RequestOTP_call ''+15550100'' ''sms'' ''req-1'' ''dev-otp'',
          VerifyOTP_call ''+15550100'' ''123456'' ''req-1'' ''dev-otp'']"
    by (simp add: runOTPLogin_unfold otp_exchange_def otp_verify_step_def Let_def
        example_otp_api_def example_login_env_def example_client_def SetLogging_def
        SetDeviceHash_def GetDeviceHash_def example_code_trimmed)
  from runOTPLogin_device_identity [OF p, of example_login_env example_client] c
  show ?thesis
    by (simp add: example_client_def)
qed

section \<open>Verification: error messages of the transport\<close>

lemma DecodeRune_ascii:
  "(of_char ch :: nat) < 128 \<Longrightarrow> DecodeRune (ch # cs) = (int (of_char ch), 1)"
  by (simp add: DecodeRune_def)

lemma utf8_Valid_ascii: "ascii str \<Longrightarrow> utf8_Valid str"
proof (induction str)
  case Nil
  show ?case by (subst utf8_Valid.simps) simp
next
  case (Cons ch cs)
  then have a: "(of_char ch :: nat) < 128" and b: "ascii cs"
    by (simp_all add: ascii_def)
  show ?case
    using a Cons.IH [OF b]
    by (subst utf8_Valid.simps) (simp add: DecodeRune_ascii RuneError_def)
qed

lemma of_char_eq_numeral:
  "(of_char ch :: nat) = of_char ch' \<longleftrightarrow> ch = ch'"
  by (simp only: of_char_eq_iff)

lemma rune_control_nat:
  "((of_char ch :: nat) < 32 \<and> (of_char ch :: nat) \<noteq> 10 \<and> (of_char ch :: nat) \<noteq> 13
      \<and> (of_char ch :: nat) \<noteq> 9) = isControl ch"
proof -
  have "(of_char ch :: nat) = 10 \<longleftrightarrow> ch = CHR 0x0A"
    using of_char_eq_numeral [of ch "CHR 0x0A"] by (simp del: of_char_eq_iff)
  moreover have "(of_char ch :: nat) = 13 \<longleftrightarrow> ch = CHR 0x0D"
    using of_char_eq_numeral [of ch "CHR 0x0D"] by (simp del: of_char_eq_iff)
  moreover have "(of_char ch :: nat) = 9 \<longleftrightarrow> ch = CHR 0x09"
    using of_char_eq_numeral [of ch "CHR 0x09"] by (simp del: of_char_eq_iff)
  ultimately show ?thesis
    unfolding isControl_def by simp
qed

lemma rune_control:
  "(int (of_char ch) < 32 \<and> int (of_char ch) \<noteq> 10 \<and> int (of_char ch) \<noteq> 13 \<and> int (of_char ch) \<noteq> 9)
     = isControl ch"
  using rune_control_nat [of ch] by simp

lemma countControlChars_ascii:
  "ascii str \<Longrightarrow>
   countControlChars i str n = n + length (filter isControl (take (1001 - i) str))"
proof (induction str arbitrary: i n)
  case Nil
  show ?case by (subst countControlChars.simps) simp
next
  case (Cons ch cs)
  then have a: "(of_char ch :: nat) < 128" and b: "ascii cs"
    by (simp_all add: ascii_def)
  show ?case
  proof (cases "i > 1000")
    case True
    then show ?thesis by (subst countControlChars.simps) simp
  next
    case False
    then have "1001 - i = Suc (1001 - (i + 1))"
      by simp
    then have t: "take (1001 - i) (ch # cs) = ch # take (1001 - (i + 1)) cs"
      by (simp only: take_Suc_Cons)
    have step: "countControlChars i (ch # cs) n
        = countControlChars (i + 1) cs (if isControl ch then n + 1 else n)"
      using False a
      by (subst countControlChars.simps) (simp add: DecodeRune_ascii rune_control_nat rune_control)
    show ?thesis
      unfolding step t Cons.IH [OF b] by simp
  qed
qed

lemma isTextContent_ascii:
  "ascii data \<Longrightarrow>
   isTextContent data \<longleftrightarrow>
     (data = [] \<or> 10 * length (filter isControl (take 1001 data)) < length data)"
  by (auto simp: isTextContent_def utf8_Valid_ascii countControlChars_ascii)


text \<open>
  What handleErrorResponse surfaces when the body is not an error envelope (it does not
  parse, or its error member is null).
\<close>

lemma handleErrorResponse_message:
  assumes "unmarshal_APIResponse lib body = None
           \<or> (\<exists>r. unmarshal_APIResponse lib body = Some r \<and> Error_api r = None)"
  shows "handleErrorResponse lib resp body =
     APIRequestFailed (StatusCode resp)
       (if \<not> isTextContent body then ''[binary/compressed response]''
        else if length body > 200 then take 200 body @ ''...'' else body)"
  using assms by (auto simp: handleErrorResponse_def Let_def)

text \<open>
  The first half of C3 holds: a body of printable ASCII bytes longer than 200 is surfaced
  as its first 200 bytes followed by three dots; so is a body of 5000 such bytes.
\<close>

lemma handleErrorResponse_printable_truncated:
  assumes printable: "\<forall>ch \<in> set body. 32 \<le> (of_char ch :: nat) \<and> (of_char ch :: nat) < 127"
    and long: "length body > 200"
    and noenv: "unmarshal_APIResponse lib body = None
           \<or> (\<exists>r. unmarshal_APIResponse lib body = Some r \<and> Error_api r = None)"
  shows "handleErrorResponse lib resp body
           = APIRequestFailed (StatusCode resp) (take 200 body @ ''...'')"
proof -
  from printable have a: "ascii body"
    by (auto simp: ascii_def)
  from printable have "filter isControl (take 1001 body) = []"
    by (auto simp: filter_empty_conv isControl_def dest!: in_set_takeD)
  with a long have "isTextContent body"
    by (simp add: isTextContent_ascii)
  with long show ?thesis
    by (simp add: handleErrorResponse_message [OF noenv])
qed

lemma handleErrorResponse_5000_printable:
  "handleErrorResponse example_http_lib
     \<lparr>StatusCode = 500, Cookies = [], Body = replicate 5000 (CHR ''a'')\<rparr>
     (replicate 5000 (CHR ''a''))
   = APIRequestFailed 500 (replicate 200 (CHR ''a'') @ ''...'')"
proof -
  have "handleErrorResponse example_http_lib
     \<lparr>StatusCode = 500, Cookies = [], Body = replicate 5000 (CHR ''a'')\<rparr>
     (replicate 5000 (CHR ''a''))
   = APIRequestFailed (StatusCode \<lparr>StatusCode = 500, Cookies = [],
        Body = replicate 5000 (CHR ''a'')\<rparr>) (take 200 (replicate 5000 (CHR ''a'')) @ ''...'')"
    by (rule handleErrorResponse_printable_truncated) (simp_all add: example_http_lib_def)
  then show ?thesis by simp
qed

text \<open>
  The second half of C3 holds for ASCII bodies of at most 1000 bytes: with more than a
  tenth of control bytes the placeholder is surfaced.
\<close>

lemma handleErrorResponse_small_binary:
  assumes "ascii body" and "length body \<le> 1000"
    and "10 * length (filter isControl body) > length body"
    and noenv: "unmarshal_APIResponse lib body = None
           \<or> (\<exists>r. unmarshal_APIResponse lib body = Some r \<and> Error_api r = None)"
  shows "handleErrorResponse lib resp body
           = APIRequestFailed (StatusCode resp) ''[binary/compressed response]''"
proof -
  from assms(2) have "take 1001 body = body" by simp
  with assms(1,3) have "\<not> isTextContent body"
    by (auto simp: isTextContent_ascii)
  then show ?thesis
    by (simp add: handleErrorResponse_message [OF noenv])
qed

text \<open>
  C3, second half, on a longer body. The loop counts control bytes only up to offset 1000,
  but the count is divided by the length of the whole body. A body of 10011 bytes, every
  one the control byte 0x01, has 1000 control bytes among its first 1000 bytes; the loop
  counts 1001, which is less than a tenth of 10011, so isTextContent holds and the
  message is the first 200 raw bytes and three dots, not the placeholder.
\<close>

theorem handleErrorResponse_large_binary_body:
  "length (filter isControl (take 1000 (replicate 10011 (CHR 0x01)))) = 1000
   \<and> isTextContent (replicate 10011 (CHR 0x01))
   \<and> handleErrorResponse example_http_lib
        \<lparr>StatusCode = 502, Cookies = [], Body = replicate 10011 (CHR 0x01)\<rparr>
        (replicate 10011 (CHR 0x01))
      = APIRequestFailed 502 (replicate 200 (CHR 0x01) @ ''...'')"
proof -
  have c: "isControl (CHR 0x01)"
    by (simp add: isControl_def)
  have a: "ascii (replicate 10011 (CHR 0x01))"
    by (simp add: ascii_def)
  have t: "isTextContent (replicate 10011 (CHR 0x01))"
    using c by (simp add: isTextContent_ascii [OF a])
  have n: "unmarshal_APIResponse example_http_lib (replicate 10011 (CHR 0x01)) = None
      \<or> (\<exists>r. unmarshal_APIResponse example_http_lib (replicate 10011 (CHR 0x01)) = Some r
             \<and> Error_api r = None)"
    by (simp add: example_http_lib_def)
  show ?thesis
    using c t by (simp add: handleErrorResponse_message [OF n])
qed

section \<open>Verification: device identity\<close>

text \<open>
  With random bytes drawn GenerateDeviceHash always returns. On the fallback path it
  returns exactly when the converted slice has capacity for 16 bytes: the fallback string
  has 10 bytes besides the host name and the user name.
\<close>

lemma slice_expr_ok: "lo \<le> hi \<Longrightarrow> hi \<le> length (elems s) + length (spare s) \<Longrightarrow>
  slice_expr s lo hi = Inr (take (hi - lo) (drop lo (elems s @ spare s)))"
  by (simp add: slice_expr_def)

lemma GenerateDeviceHash_random_returns:
  "\<exists>h. GenerateDeviceHash runtime_spare (Some drawn) hostname USER USERNAME = Inr h"
  by (simp add: GenerateDeviceHash_def Let_def)

lemma GenerateDeviceHash_fallback_returns_iff:
  "(\<exists>h. GenerateDeviceHash runtime_spare None hostname USER USERNAME = Inr h) \<longleftrightarrow>
     16 \<le> 10 + length hostname + length (if USER = [] then USERNAME else USER)
            + length (runtime_spare (''fintrack-'' @ hostname @ ''-'' @ (if USER = [] then USERNAME else USER)))"
  by (auto simp: GenerateDeviceHash_def Let_def slice_expr_def bytes_of_string_def)

lemma capacity_16_gc: "capacity_16 gc_runtime_spare"
  by (simp add: capacity_16_def gc_runtime_spare_def)

text \<open>
  C10. GenerateDeviceHash returns a string for every outcome of the random source and
  every host name, USER and USERNAME, the empty ones included, on every runtime that gives
  the converted slice a capacity of at least 16, and so on the gc runtime: a slice
  expression on a slice is in range up to the capacity, and the fallback string has at
  least 10 bytes. With \<open>rand.Read\<close> failing and all three names empty the result on
  the gc runtime is the hexadecimal form of \<open>fintrack--\<close> followed by six zero bytes.
\<close>

theorem GenerateDeviceHash_total:
  "(capacity_16 runtime_spare \<longrightarrow>
      (\<exists>h. GenerateDeviceHash runtime_spare rand hostname USER USERNAME = Inr h))
   \<and> (\<exists>h. GenerateDeviceHash gc_runtime_spare rand hostname USER USERNAME = Inr h)"
proof -
  have gen: "\<exists>h. GenerateDeviceHash rs rand hostname USER USERNAME = Inr h"
    if cap: "capacity_16 rs" for rs
  proof (cases rand)
    case (Some drawn)
    then show ?thesis
      using GenerateDeviceHash_random_returns [of rs drawn hostname USER USERNAME] by simp
  next
    case None
    let ?user = "if USER = [] then USERNAME else USER"
    let ?fallback = "''fintrack-'' @ hostname @ ''-'' @ ?user"
    have "10 \<le> length ?fallback" by simp
    with cap have "16 \<le> length ?fallback + length (rs ?fallback)"
      unfolding capacity_16_def by blast
    then have "16 \<le> 10 + length hostname + length ?user + length (rs ?fallback)"
      by simp
    then show ?thesis
      unfolding None by (simp only: GenerateDeviceHash_fallback_returns_iff)
  qed
  from gen [of runtime_spare] gen [OF capacity_16_gc] show ?thesis
    by blast
qed

lemma GenerateDeviceHash_gc_empty_names:
  "GenerateDeviceHash gc_runtime_spare None [] [] []
     = Inr ''66696e74-7261-636b-2d2d-000000000000''"
  by code_simp

theorem GenerateDeviceHash_total_witness:
  "capacity_16 gc_runtime_spare
   \<and> (\<exists>h. GenerateDeviceHash gc_runtime_spare None [] [] [] = Inr h)
   \<and> (\<exists>h. GenerateDeviceHash (\<lambda>str. replicate 6 0) None ''pc'' [] ''me'' = Inr h)"
proof -
  have c: "capacity_16 (\<lambda>str. replicate 6 0)"
    by (simp add: capacity_16_def)
  from GenerateDeviceHash_total [of gc_runtime_spare None "[]" "[]" "[]"]
    GenerateDeviceHash_total [of "\<lambda>str. replicate 6 0" None "''pc''" "[]" "''me''"]
    capacity_16_gc c
  show ?thesis
    by blast
qed

section \<open>Verification: pagination\<close>

lemma fetch_exchange_doRequest:
  "fetch_exchange lib unmarshal res =
     (case fst (doRequest lib c res unmarshal) of
        Inl e \<Rightarrow> Inl (Wrapped ''failed to fetch transactions'' e)
      | Inr response \<Rightarrow>
          (case Error_tr response of
             Some e \<Rightarrow> Inl (FetchFailed e)
           | None \<Rightarrow> Inr (Data_tr response)))"
  by (simp add: fetch_exchange_def doRequest_def Let_def split: http_result.splits option.splits)

lemma doRequest_session:
  "session c \<noteq> None \<Longrightarrow> session (snd (doRequest lib c res unmarshal)) \<noteq> None"
  using doRequest_client [of lib c res unmarshal] by auto

lemma doRequest_baseURL: "baseURL (snd (doRequest lib c res unmarshal)) = baseURL c"
  using doRequest_client [of lib c res unmarshal] by auto

lemma FetchTransactions_step:
  assumes s: "session c \<noteq> None" and u: "page_url_accepted lib c userID limit after"
  shows "\<exists>c' req. FetchTransactions lib unmarshal requestID res c userID limit after
            = (fetch_exchange lib unmarshal res, c', [req]) \<and> session c' \<noteq> None
          \<and> baseURL c' = baseURL c \<and> URL req = page_url lib c userID limit after"
proof -
  from s obtain s0 where s0: "session c = Some s0" by auto
  let ?f = "zeroFilters\<lparr>Limit := limit, After := after\<rparr>"
  from u obtain req where req: "newRequest lib c requestID ''GET''
      (transactionsEndpoint lib userID (buildTransactionQueryParams lib ?f)) None = Inr req"
    and url: "URL req = page_url lib c userID limit after"
    using newRequest_ok [of lib "''GET''" c _ requestID None]
    unfolding page_url_accepted_def page_url_def by blast
  obtain x c' where d: "doRequest lib c res unmarshal = (x, c')"
    by (cases "doRequest lib c res unmarshal")
  have x: "fetch_exchange lib unmarshal res =
     (case x of
        Inl e \<Rightarrow> Inl (Wrapped ''failed to fetch transactions'' e)
      | Inr response \<Rightarrow>
          (case Error_tr response of
             Some e \<Rightarrow> Inl (FetchFailed e)
           | None \<Rightarrow> Inr (Data_tr response)))"
    using fetch_exchange_doRequest [of lib unmarshal res c] d by simp
  have c': "session c' \<noteq> None"
    using doRequest_session [OF s, of lib res unmarshal] d by simp
  have b: "baseURL c' = baseURL c"
    using doRequest_baseURL [of lib c res unmarshal] d by simp
  have "FetchTransactions lib unmarshal requestID res c userID limit after
            = (fetch_exchange lib unmarshal res, c', [req])"
    using s0 req d
    by (cases x)
       (auto simp: FetchTransactions_def FetchTransactionsWithFilters_def Let_def
          x split: option.splits)
  with c' b url show ?thesis by blast
qed

lemma loop_run:
  "session c \<noteq> None \<Longrightarrow> k < fuel \<Longrightarrow>
    page_url_accepted lib c userID limit after \<Longrightarrow>
    (\<forall>i<k. page_url_accepted lib c userID limit
             (After_data (page lib unmarshal world (j + i)))) \<Longrightarrow>
    (\<forall>i<k. \<not> isl (fetch_exchange lib unmarshal (snd (world (j + i))))
             \<and> continues limit (page lib unmarshal world (j + i))) \<Longrightarrow>
    \<not> isl (fetch_exchange lib unmarshal (snd (world (j + k)))) \<Longrightarrow>
    \<not> continues limit (page lib unmarshal world (j + k)) \<Longrightarrow>
    \<exists>R. FetchAllTransactions_loop lib unmarshal world userID limit fuel j after allT allC c cs reqs
          = Some R
      \<and> outcome R = Inr (allT @ concat (map (\<lambda>i. Transactions (page lib unmarshal world i)) [j..<j + k + 1]),
                         allC @ concat (map (\<lambda>i. Counts (page lib unmarshal world i)) [j..<j + k + 1]))
      \<and> cursors R = cs @ after # map (\<lambda>i. After_data (page lib unmarshal world i)) [j..<j + k]
      \<and> map URL (requests R) = map URL reqs @ map (page_url lib c userID limit) (drop (length cs) (cursors R))
      \<and> session (client R) \<noteq> None"
proof (induction k arbitrary: fuel j after allT allC c cs reqs)
  case 0
  then obtain f where fuel: "fuel = Suc f" by (cases fuel) auto
  from FetchTransactions_step [OF "0.prems"(1) "0.prems"(3), of unmarshal "fst (world j)"
      "snd (world j)"]
  obtain c' req where step: "FetchTransactions lib unmarshal (fst (world j)) (snd (world j)) c
      userID limit after = (fetch_exchange lib unmarshal (snd (world j)), c', [req])"
    and c': "session c' \<noteq> None" and b: "baseURL c' = baseURL c"
    and url: "URL req = page_url lib c userID limit after" by blast
  from "0.prems"(6) obtain d where d: "fetch_exchange lib unmarshal (snd (world j)) = Inr d"
    by (cases "fetch_exchange lib unmarshal (snd (world j))") auto
  then have pg: "page lib unmarshal world j = d"
    by (simp add: page_def)
  from "0.prems"(7) pg have stop: "After_data d = [] \<or> int (length (Transactions d)) < limit"
    by (auto simp: continues_def)
  show ?case
    using step d c' stop pg url
    by (cases "Counts d = []") (auto simp: fuel Let_def)
next
  case (Suc k)
  then obtain f where fuel: "fuel = Suc f" and f: "k < f" by (cases fuel) auto
  from FetchTransactions_step [OF Suc.prems(1) Suc.prems(3), of unmarshal "fst (world j)"
      "snd (world j)"]
  obtain c' req where step: "FetchTransactions lib unmarshal (fst (world j)) (snd (world j)) c
      userID limit after = (fetch_exchange lib unmarshal (snd (world j)), c', [req])"
    and c': "session c' \<noteq> None" and b: "baseURL c' = baseURL c"
    and url: "URL req = page_url lib c userID limit after" by blast
  have pu: "page_url lib c' userID limit = page_url lib c userID limit"
    using b by (simp add: page_url_def fun_eq_iff)
  then have pa: "page_url_accepted lib c' userID limit = page_url_accepted lib c userID limit"
    by (simp add: page_url_accepted_def fun_eq_iff)
  from Suc.prems(5) have "\<not> isl (fetch_exchange lib unmarshal (snd (world (j + 0))))
      \<and> continues limit (page lib unmarshal world (j + 0))"
    by blast
  then obtain d where d: "fetch_exchange lib unmarshal (snd (world j)) = Inr d"
    and cont0: "continues limit (page lib unmarshal world j)"
    by (cases "fetch_exchange lib unmarshal (snd (world j))") auto
  then have pg: "page lib unmarshal world j = d"
    by (simp add: page_def)
  from cont0 pg have cont: "After_data d \<noteq> []" "\<not> int (length (Transactions d)) < limit"
    by (auto simp: continues_def)
  from Suc.prems(4) have "page_url_accepted lib c userID limit
      (After_data (page lib unmarshal world (j + 0)))"
    by blast
  with pg have acc0: "page_url_accepted lib c' userID limit (After_data d)"
    by (simp add: pa)
  have acc: "\<forall>i<k. page_url_accepted lib c' userID limit
      (After_data (page lib unmarshal world (Suc j + i)))"
    unfolding pa using Suc.prems(4) by (metis Suc_less_eq add_Suc_shift)
  have rest: "\<forall>i<k. \<not> isl (fetch_exchange lib unmarshal (snd (world (Suc j + i))))
             \<and> continues limit (page lib unmarshal world (Suc j + i))"
    using Suc.prems(5) by (metis Suc_less_eq add_Suc_shift)
  have last: "\<not> isl (fetch_exchange lib unmarshal (snd (world (Suc j + k))))"
      "\<not> continues limit (page lib unmarshal world (Suc j + k))"
    using Suc.prems(6,7) by simp_all
  from Suc.IH [OF c' f acc0 acc rest last, of "allT @ Transactions d" "allC @ Counts d"
      "cs @ [after]" "reqs @ [req]"]
  obtain R where R: "FetchAllTransactions_loop lib unmarshal world userID limit f (Suc j)
        (After_data d) (allT @ Transactions d) (allC @ Counts d) c' (cs @ [after]) (reqs @ [req])
      = Some R"
    and out: "outcome R = Inr ((allT @ Transactions d)
                 @ concat (map (\<lambda>i. Transactions (page lib unmarshal world i)) [Suc j..<Suc j + k + 1]),
               (allC @ Counts d)
                 @ concat (map (\<lambda>i. Counts (page lib unmarshal world i)) [Suc j..<Suc j + k + 1]))"
    and cur: "cursors R = (cs @ [after]) @ After_data d
                 # map (\<lambda>i. After_data (page lib unmarshal world i)) [Suc j..<Suc j + k]"
    and len: "map URL (requests R) = map URL (reqs @ [req])
          @ map (page_url lib c' userID limit) (drop (length (cs @ [after])) (cursors R))"
    and ses: "session (client R) \<noteq> None"
    by blast
  have loop: "FetchAllTransactions_loop lib unmarshal world userID limit fuel j after allT allC c
      cs reqs = Some R"
    using step d cont R by (cases "Counts d = []") (simp_all add: fuel Let_def)
  have up1: "[j..<Suc (Suc (j + k))] = j # [Suc j..<Suc (Suc (j + k))]"
    by (simp add: upt_conv_Cons del: upt_Suc)
  have up2: "[j..<Suc (j + k)] = j # [Suc j..<Suc (j + k)]"
    by (simp add: upt_conv_Cons del: upt_Suc)
  show ?case
    using loop out cur len ses pg url
    by (simp add: up1 up2 pu del: upt_Suc)
qed

lemma full_pages_total:
  "(\<forall>i<k. limit \<le> int (length (f i))) \<Longrightarrow>
   int k * limit \<le> int (length (concat (map f [0..<k])))"
proof (induction k)
  case 0
  show ?case by simp
next
  case (Suc k)
  then have "int k * limit \<le> int (length (concat (map f [0..<k])))"
    and "limit \<le> int (length (f k))"
    by simp_all
  then show ?case
    by (simp add: algebra_simps)
qed

lemma calls_bound:
  assumes "0 < limit" and "int k * limit \<le> n"
  shows "int k \<le> n div limit"
proof -
  have "int k = (int k * limit) div limit"
    using assms(1) by simp
  also have "\<dots> \<le> n div limit"
    using assms by (intro zdiv_mono1) simp_all
  finally show ?thesis .
qed

text \<open>
  C2 (as amended). Let the client have a session, the limit be positive, and
  \<open>http.NewRequest\<close> accept the page requests for the cursors that are sent (the empty
  one and those of the pages 0 to k-1). If the pages answered at iterations 0 to k-1 all have a cursor and at least
  limit transactions, and the page answered at iteration k has no cursor or fewer than
  limit transactions, then (given fuel for k+1 iterations) FetchAllTransactions returns:
  the transactions and the counts of the pages 0 to k, concatenated in order; the first
  call has the empty cursor and each later call the cursor of the page before it, and
  the URL requested is the one built from that cursor; it makes exactly k+1 requests,
  which is at most the number of transactions fetched divided by the limit (rounded
  down) plus one.
\<close>

theorem FetchAllTransactions_pages:
  assumes s: "session c \<noteq> None" and lim: "0 < limit"
    and u: "\<forall>after \<in> set (cursors_sent lib unmarshal world k).
              page_url_accepted lib c userID limit after"
    and cont: "\<forall>i<k. \<not> isl (fetch_exchange lib unmarshal (snd (world i)))
                      \<and> continues limit (page lib unmarshal world i)"
    and last: "\<not> isl (fetch_exchange lib unmarshal (snd (world k)))"
    and stop: "\<not> continues limit (page lib unmarshal world k)"
    and fuel: "k < fuel"
  shows "\<exists>R. FetchAllTransactions lib unmarshal world fuel c userID limit = Some R
     \<and> outcome R = Inr (concat (map (\<lambda>i. Transactions (page lib unmarshal world i)) [0..<Suc k]),
                        concat (map (\<lambda>i. Counts (page lib unmarshal world i)) [0..<Suc k]))
     \<and> cursors R = cursors_sent lib unmarshal world k
     \<and> cursors R = [] # map (\<lambda>i. After_data (page lib unmarshal world i)) [0..<k]
     \<and> map URL (requests R) = map (page_url lib c userID limit) (cursors R)
     \<and> length (requests R) = Suc k
     \<and> int (length (requests R))
          \<le> int (length (concat (map (\<lambda>i. Transactions (page lib unmarshal world i)) [0..<Suc k])))
               div limit + 1"
proof -
  from cont have cont': "\<forall>i<k. \<not> isl (fetch_exchange lib unmarshal (snd (world (0 + i))))
                      \<and> continues limit (page lib unmarshal world (0 + i))"
    by simp
  from last stop have last': "\<not> isl (fetch_exchange lib unmarshal (snd (world (0 + k))))"
      "\<not> continues limit (page lib unmarshal world (0 + k))"
    by simp_all
  from u have u0: "page_url_accepted lib c userID limit []"
    and u': "\<forall>i<k. page_url_accepted lib c userID limit
                (After_data (page lib unmarshal world (0 + i)))"
    by (simp_all add: cursors_sent_def)
  from loop_run [OF s fuel u0 u' cont' last', of "[]" "[]" "[]" "[]"]
  obtain R where R: "FetchAllTransactions lib unmarshal world fuel c userID limit = Some R"
    and out: "outcome R = Inr (concat (map (\<lambda>i. Transactions (page lib unmarshal world i)) [0..<Suc k]),
                        concat (map (\<lambda>i. Counts (page lib unmarshal world i)) [0..<Suc k]))"
    and cur: "cursors R = [] # map (\<lambda>i. After_data (page lib unmarshal world i)) [0..<k]"
    and urls: "map URL (requests R) = map (page_url lib c userID limit) (cursors R)"
    unfolding FetchAllTransactions_def by (auto simp del: upt_Suc)
  from urls have "length (requests R) = length (cursors R)"
    by (metis length_map)
  with cur have len: "length (requests R) = Suc k"
    by simp
  let ?f = "\<lambda>i. Transactions (page lib unmarshal world i)"
  from cont have "\<forall>i<k. limit \<le> int (length (?f i))"
    by (auto simp: continues_def)
  then have "int k * limit \<le> int (length (concat (map ?f [0..<k])))"
    by (rule full_pages_total)
  also have "\<dots> \<le> int (length (concat (map ?f [0..<Suc k])))"
    by simp
  finally have "int k \<le> int (length (concat (map ?f [0..<Suc k]))) div limit"
    using lim by (intro calls_bound)
  with len have bound: "int (length (requests R))
      \<le> int (length (concat (map ?f [0..<Suc k]))) div limit + 1"
    by simp
  from cur have sent: "cursors R = cursors_sent lib unmarshal world k"
    by (simp add: cursors_sent_def)
  from R out sent cur urls len bound show ?thesis
    by blast
qed

lemma example_pages:
  "fetch_exchange example_http_lib example_unmarshal_page (snd (example_world 0))
     = Inr \<lparr>Transactions = [1, 2], Counts = [7], Total = 2, After_data = ''cur1''\<rparr>"
  "fetch_exchange example_http_lib example_unmarshal_page (snd (example_world (Suc 0)))
     = Inr \<lparr>Transactions = [], Counts = [], Total = 2, After_data = []\<rparr>"
  by (simp_all add: fetch_exchange_def example_world_def example_unmarshal_page_def)

theorem FetchAllTransactions_pages_witness:
  "map_option outcome (FetchAllTransactions example_http_lib example_unmarshal_page example_world 2
       (example_client\<lparr>session := Some example_session\<rparr>) ''u1'' 2)
     = Some (Inr ([1, 2], [7]))
   \<and> map_option cursors (FetchAllTransactions example_http_lib example_unmarshal_page example_world 2
       (example_client\<lparr>session := Some example_session\<rparr>) ''u1'' 2)
     = Some [[], ''cur1'']"
proof -
  have 1: "session (example_client\<lparr>session := Some example_session\<rparr>) \<noteq> None"
    by simp
  have 2: "\<forall>after \<in> set (cursors_sent example_http_lib example_unmarshal_page example_world 1).
      page_url_accepted example_http_lib (example_client\<lparr>session := Some example_session\<rparr>)
        ''u1'' 2 after"
    by (simp add: page_url_accepted_def example_http_lib_def)
  have 3: "\<forall>i<1. \<not> isl (fetch_exchange example_http_lib example_unmarshal_page (snd (example_world i)))
        \<and> continues 2 (page example_http_lib example_unmarshal_page example_world i)"
    by (simp add: example_pages page_def continues_def)
  have 4: "\<not> isl (fetch_exchange example_http_lib example_unmarshal_page (snd (example_world 1)))"
    by (simp add: example_pages)
  have 5: "\<not> continues 2 (page example_http_lib example_unmarshal_page example_world 1)"
    by (simp add: example_pages page_def continues_def)
  from FetchAllTransactions_pages [where fuel = 2, OF 1 _ 2 3 4 5]
  show ?thesis
    by (auto simp: page_def example_pages)
qed

text \<open>
  C2 as stated bounds the calls by the ceiling of total/N. With N = 2, a first page of two
  transactions that carries a cursor and an empty second page, the loop makes two calls
  and fetches two transactions in total, and the ceiling of 2/2 is 1.
\<close>

theorem FetchAllTransactions_ceil_counterexample:
  "map_option outcome (FetchAllTransactions example_http_lib example_unmarshal_page example_world
       (Suc (Suc 0)) (example_client\<lparr>session := Some example_session\<rparr>) ''u1'' 2)
     = Some (Inr ([1, 2], [7]))
   \<and> map_option (length \<circ> requests) (FetchAllTransactions example_http_lib example_unmarshal_page
       example_world (Suc (Suc 0)) (example_client\<lparr>session := Some example_session\<rparr>) ''u1'' 2)
     = Some 2
   \<and> \<not> (2 \<le> ceil_div (int (length [1::nat, 2])) 2)"
  by (simp add: FetchAllTransactions_def FetchTransactions_def FetchTransactionsWithFilters_def
      newRequest_def doRequest_def saveResponseCookies_def Let_def example_http_lib_def
      example_client_def example_session_def example_world_def example_unmarshal_page_def
      ceil_div_def)

end
